theory Spec2Isabelle
  imports Main "HOL-Library.Sublist"
begin

section \<open>JavaScript strings\<close>

text \<open>
  A JavaScript string is a sequence of UTF-16 code units. The sources use characters
  outside ASCII (emoji in the RSS template) and \<open>String.prototype.trim\<close> removes
  Unicode white space, so a string is modelled as the list of its code units;
  \<open>js\<close> embeds an ASCII literal.
\<close>

type_synonym ustring = "nat list"

definition js :: "string \<Rightarrow> ustring" where
  "js s = map of_char s"

text \<open>
  The code units \<open>trim\<close> strips: ECMAScript WhiteSpace (TAB, VT, FF, SP, NBSP, ZWNBSP
  and the Unicode category Zs) and LineTerminator (LF, CR, LS, PS).
\<close>

definition is_js_space :: "nat \<Rightarrow> bool" where
  "is_js_space c =
     (c = 9 \<or> c = 10 \<or> c = 11 \<or> c = 12 \<or> c = 13 \<or> c = 32 \<or> c = 160 \<or> c = 5760
      \<or> (8192 \<le> c \<and> c \<le> 8202) \<or> c = 8232 \<or> c = 8233 \<or> c = 8239 \<or> c = 8287
      \<or> c = 12288 \<or> c = 65279)"

definition trim :: "ustring \<Rightarrow> ustring" where
  "trim s = rev (dropWhile is_js_space (rev (dropWhile is_js_space s)))"

text \<open>A string is truthy exactly when it is not empty.\<close>

definition truthy_str :: "ustring \<Rightarrow> bool" where
  "truthy_str s = (s \<noteq> [])"

section \<open>Repositories (src/types/github.ts)\<close>

record owner =
  login :: ustring
  avatar_url :: ustring
  owner_html_url :: ustring

record repository =
  repo_id :: int
  name :: ustring
  full_name :: ustring
  description :: "ustring option"
  html_url :: ustring
  stargazers_count :: int
  forks_count :: int
  open_issues_count :: int
  language :: "ustring option"
  repo_owner :: owner
  created_at :: ustring
  updated_at :: ustring

section \<open>The bookmarks store (stores/bookmarks.ts)\<close>

text \<open>
  The store's state. \<open>Set<number>\<close> is a set of ids, \<open>Map<number, string>\<close> a
  partial map; each action takes the state and returns the updated one, as zustand's
  \<open>set\<close> merges the returned fields into the state.
\<close>

record bookmarks_state =
  bookmarks :: "repository list"
  bookmarkedIds :: "int set"
  note_map :: "int \<rightharpoonup> ustring"
  lastVisit :: "ustring option"
  seenRepoIds :: "int set"

definition initial_bookmarks :: bookmarks_state where
  "initial_bookmarks =
     \<lparr>bookmarks = [], bookmarkedIds = {}, note_map = Map.empty, lastVisit = None,
      seenRepoIds = {}\<rparr>"

definition addBookmark :: "repository \<Rightarrow> bookmarks_state \<Rightarrow> bookmarks_state" where
  "addBookmark repo state =
     state\<lparr>bookmarks := repo # bookmarks state,
           bookmarkedIds := insert (repo_id repo) (bookmarkedIds state)\<rparr>"

definition removeBookmark :: "int \<Rightarrow> bookmarks_state \<Rightarrow> bookmarks_state" where
  "removeBookmark repoId state =
     (let newNotes = (note_map state)(repoId := None)
      in state\<lparr>bookmarks := filter (\<lambda>r. repo_id r \<noteq> repoId) (bookmarks state),
               bookmarkedIds := Set.filter (\<lambda>i. i \<noteq> repoId) (bookmarkedIds state),
               note_map := newNotes\<rparr>)"

definition isBookmarked :: "bookmarks_state \<Rightarrow> int \<Rightarrow> bool" where
  "isBookmarked state repoId = (repoId \<in> bookmarkedIds state)"

definition toggleBookmark :: "repository \<Rightarrow> bookmarks_state \<Rightarrow> bookmarks_state" where
  "toggleBookmark repo state =
     (if isBookmarked state (repo_id repo) then removeBookmark (repo_id repo) state
      else addBookmark repo state)"

definition setNote :: "int \<Rightarrow> ustring \<Rightarrow> bookmarks_state \<Rightarrow> bookmarks_state" where
  "setNote repoId note state =
     (let newNotes =
            (if truthy_str (trim note) then (note_map state)(repoId \<mapsto> note)
             else (note_map state)(repoId := None))
      in state\<lparr>note_map := newNotes\<rparr>)"

definition getNote :: "bookmarks_state \<Rightarrow> int \<Rightarrow> ustring option" where
  "getNote state repoId = note_map state repoId"

definition markAsSeen :: "int list \<Rightarrow> bookmarks_state \<Rightarrow> bookmarks_state" where
  "markAsSeen repoIds state = state\<lparr>seenRepoIds := seenRepoIds state \<union> set repoIds\<rparr>"

definition isNew :: "bookmarks_state \<Rightarrow> int \<Rightarrow> bool" where
  "isNew state repoId = (repoId \<notin> seenRepoIds state)"

text \<open>
  The consistency of the three bookmark fields: the id set is the set of ids of the
  listed repositories, and notes exist for bookmarked ids only.
\<close>

definition ids_consistent :: "bookmarks_state \<Rightarrow> bool" where
  "ids_consistent s = (bookmarkedIds s = repo_id ` set (bookmarks s))"

definition notes_bookmarked :: "bookmarks_state \<Rightarrow> bool" where
  "notes_bookmarked s = (dom (note_map s) \<subseteq> bookmarkedIds s)"

definition store_inv :: "bookmarks_state \<Rightarrow> bool" where
  "store_inv s = (ids_consistent s \<and> notes_bookmarked s)"

definition blank :: "ustring \<Rightarrow> bool" where
  "blank s = list_all is_js_space s"

definition sample_repo :: repository where
  "sample_repo =
     \<lparr>repo_id = 1, name = js ''githunt'', full_name = js ''a/githunt'',
      description = None, html_url = js ''https://github.com/a/githunt'',
      stargazers_count = 1234, forks_count = 5, open_issues_count = 0,
      language = Some (js ''TypeScript''),
      repo_owner = \<lparr>login = js ''a'', avatar_url = [], owner_html_url = []\<rparr>,
      created_at = js ''2024-01-15T00:00:00Z'', updated_at = js ''2024-01-15T00:00:00Z''\<rparr>"

section \<open>The RSS export (lib/rss.ts)\<close>

datatype DateJump = DayJump | WeekJump | MonthJump

text \<open>The string value of a cadence (\<open>'day' | 'week' | 'month'\<close>).\<close>

fun dateJump_str :: "DateJump \<Rightarrow> ustring" where
  "dateJump_str DayJump = js ''day''"
| "dateJump_str WeekJump = js ''week''"
| "dateJump_str MonthJump = js ''month''"

text \<open>
  \<open>text.replace(/c/g, r)\<close> for a one-character pattern \<open>c\<close> and a replacement
  without \<open>$\<close>: every occurrence of \<open>c\<close> becomes \<open>r\<close>.
\<close>

definition replaceAll_char :: "nat \<Rightarrow> ustring \<Rightarrow> ustring \<Rightarrow> ustring" where
  "replaceAll_char c r s = concat (map (\<lambda>x. if x = c then r else [x]) s)"

text \<open>The five replacements in the order of the source: \<open>&\<close>, \<open><\<close>, \<open>>\<close>, \<open>"\<close>, \<open>'\<close>.\<close>

definition escapeXml :: "ustring \<Rightarrow> ustring" where
  "escapeXml text =
     replaceAll_char 39 (js ''&apos;'')
       (replaceAll_char 34 (js ''&quot;'')
         (replaceAll_char 62 (js ''&gt;'')
           (replaceAll_char 60 (js ''&lt;'')
             (replaceAll_char 38 (js ''&amp;'') text))))"

text \<open>
  The claimed behaviour, character by character: each of the five special characters
  becomes its entity reference, every other code unit stays.
\<close>

definition xml_entity :: "nat \<Rightarrow> ustring" where
  "xml_entity c =
     (if c = 38 then js ''&amp;'' else if c = 60 then js ''&lt;''
      else if c = 62 then js ''&gt;'' else if c = 34 then js ''&quot;''
      else if c = 39 then js ''&apos;'' else [c])"

definition xml_entities :: "ustring list" where
  "xml_entities = [js ''&amp;'', js ''&lt;'', js ''&gt;'', js ''&quot;'', js ''&apos;'']"

text \<open>Every \<open>&\<close> of a string starts one of the five entity references.\<close>

fun amps_in_entities :: "ustring \<Rightarrow> bool" where
  "amps_in_entities [] = True"
| "amps_in_entities (c # cs) =
     ((c = 38 \<longrightarrow> list_ex (\<lambda>e. prefix e (c # cs)) xml_entities) \<and> amps_in_entities cs)"

text \<open>\<open>Array.prototype.join\<close> on strings.\<close>

fun join :: "ustring \<Rightarrow> ustring list \<Rightarrow> ustring" where
  "join sep [] = []"
| "join sep [x] = x"
| "join sep (x # y # ys) = x @ sep @ join sep (y # ys)"

record RSSOptions =
  languages :: "ustring list"
  dateJump :: DateJump
  baseUrl :: "ustring option"

text \<open>
  What the feed takes from the host and not from this repository: the locale's number
  format (\<open>Number.prototype.toLocaleString\<close>), the parsing and printing of a date
  (\<open>new Date(s).toUTCString()\<close>) and the printed current time.
\<close>

record rss_host =
  toLocaleString :: "int \<Rightarrow> ustring"
  toUTCString :: "ustring \<Rightarrow> ustring"
  nowUTCString :: ustring

definition nl :: ustring where
  "nl = [10]"

text \<open>\<open>s || d\<close> for a string or null \<open>s\<close>.\<close>

definition or_default :: "ustring option \<Rightarrow> ustring \<Rightarrow> ustring" where
  "or_default s d = (case s of None \<Rightarrow> d | Some v \<Rightarrow> if truthy_str v then v else d)"

definition rss_title :: "RSSOptions \<Rightarrow> ustring" where
  "rss_title options =
     (if length (languages options) > 0
      then js ''GitHunt - '' @ join (js '', '') (languages options)
      else js ''GitHunt - All Languages'')"

definition rss_description :: "RSSOptions \<Rightarrow> ustring" where
  "rss_description options =
     js ''Trending GitHub repositories''
     @ (if length (languages options) > 0
        then js '' for '' @ join (js '', '') (languages options) else [])
     @ js '' ('' @ dateJump_str (dateJump options) @ js ''ly)''"

text \<open>
  One item of the feed. The three emoji are U+2B50, U+1F374 and U+1F4BB, the last two
  as surrogate pairs.
\<close>

definition rss_item :: "rss_host \<Rightarrow> repository \<Rightarrow> ustring" where
  \<open>rss_item h repo =
     nl @ js ''    <item>'' @ nl
     @ js ''      <title>'' @ escapeXml (full_name repo) @ js ''</title>'' @ nl
     @ js ''      <link>'' @ html_url repo @ js ''</link>'' @ nl
     @ js ''      <description><![CDATA[''
     @ or_default (description repo) (js ''No description'') @ nl
     @ nl
     @ [0x2B50] @ js '' '' @ toLocaleString h (stargazers_count repo) @ js '' stars | ''
     @ [0xD83C, 0xDF74] @ js '' '' @ toLocaleString h (forks_count repo) @ js '' forks''
     @ (case language repo of
          None \<Rightarrow> []
        | Some l \<Rightarrow>
            if truthy_str l then js '' | '' @ [0xD83D, 0xDCBB] @ js '' '' @ l else [])
     @ js '']]></description>'' @ nl
     @ js ''      <guid isPermaLink="true">'' @ html_url repo @ js ''</guid>'' @ nl
     @ js ''      <pubDate>'' @ toUTCString h (created_at repo) @ js ''</pubDate>'' @ nl
     @ js ''      <author>'' @ escapeXml (login (repo_owner repo)) @ js ''</author>'' @ nl
     @ js ''    </item>''\<close>

definition generateRSSFeed :: "rss_host \<Rightarrow> repository list \<Rightarrow> RSSOptions \<Rightarrow> ustring" where
  \<open>generateRSSFeed h repositories options =
     (let base = (case baseUrl options of None \<Rightarrow> js ''https://githunt.dev'' | Some u \<Rightarrow> u);
          title = rss_title options;
          description = rss_description options;
          items = concat (map (rss_item h) repositories)
      in js ''<?xml version="1.0" encoding="UTF-8"?>'' @ nl
         @ js ''<rss version="2.0" xmlns:atom="http://www.w3.org/2005/Atom">'' @ nl
         @ js ''  <channel>'' @ nl
         @ js ''    <title>'' @ escapeXml title @ js ''</title>'' @ nl
         @ js ''    <link>'' @ base @ js ''</link>'' @ nl
         @ js ''    <description>'' @ escapeXml description @ js ''</description>'' @ nl
         @ js ''    <language>en-us</language>'' @ nl
         @ js ''    <lastBuildDate>'' @ nowUTCString h @ js ''</lastBuildDate>'' @ nl
         @ js ''    <atom:link href="'' @ base
         @ js ''/rss" rel="self" type="application/rss+xml"/>'' @ nl
         @ js ''    '' @ items @ nl
         @ js ''  </channel>'' @ nl
         @ js ''</rss>'')\<close>

section \<open>Dates: the ECMAScript time value\<close>

text \<open>
  A time value is a number of milliseconds since 1970-01-01T00:00:00Z, an integer. A
  \<open>Date\<close> holds a time value of at most 8.64e15 in magnitude, or none (an Invalid
  Date, whose time value is NaN): it is a \<open>date option\<close>. The functions below are the
  abstract operations of the ECMAScript specification, on which \<open>Date.prototype\<close> and,
  through it, date-fns are defined. The local time zone is a parameter: it gives the
  offset from UTC in milliseconds at every instant (\<open>LocalTZA(t, true)\<close>) and for
  every local reading of the clock (\<open>LocalTZA(t, false)\<close>).
\<close>

type_synonym date = int

definition msPerDay :: int where
  "msPerDay = 86400000"

definition Day :: "int \<Rightarrow> int" where
  "Day t = t div msPerDay"

definition TimeWithinDay :: "int \<Rightarrow> int" where
  "TimeWithinDay t = t mod msPerDay"

definition DaysInYear :: "int \<Rightarrow> int" where
  "DaysInYear y =
     (if y mod 4 \<noteq> 0 then 365 else if y mod 100 \<noteq> 0 then 366
      else if y mod 400 \<noteq> 0 then 365 else 366)"

definition DayFromYear :: "int \<Rightarrow> int" where
  "DayFromYear y =
     365 * (y - 1970) + (y - 1969) div 4 - (y - 1901) div 100 + (y - 1601) div 400"

text \<open>Each year starts \<open>DaysInYear\<close> days after the one before.\<close>

lemma div_succ:
  fixes x n :: int
  assumes "0 < n"
  shows "(x + 1) div n = x div n + (if (x + 1) mod n = 0 then 1 else 0)"
proof (cases "x mod n + 1 = n")
  case True
  have x: "x = n * (x div n) + x mod n" by simp
  have "x + 1 = n * (x div n) + (x mod n + 1)" using x by simp
  also have "\<dots> = n * (x div n + 1) + 0" using True by (simp add: algebra_simps)
  finally have e: "x + 1 = n * (x div n + 1) + 0" .
  have b: "(0::int) \<le> 0" "0 < n" using assms by simp_all
  have "(x + 1) div n = x div n + 1" using int_div_pos_eq [OF e b] .
  moreover have "(x + 1) mod n = 0" using int_mod_pos_eq [OF e b] .
  ultimately show ?thesis by simp
next
  case False
  have r: "0 \<le> x mod n" "x mod n < n" using assms by simp_all
  have e: "x + 1 = n * (x div n) + (x mod n + 1)" by simp
  have b: "0 \<le> x mod n + 1" "x mod n + 1 < n" using r False by simp_all
  have "(x + 1) div n = x div n" using int_div_pos_eq [OF e b] .
  moreover have "(x + 1) mod n = x mod n + 1" using int_mod_pos_eq [OF e b] .
  ultimately show ?thesis using r by simp
qed

lemma mod_shift:
  fixes y :: int
  shows "(y - n * k) mod n = y mod n"
proof -
  have "(y - n * k) mod n = (y + n * (- k)) mod n" by simp
  also have "\<dots> = y mod n" by (rule mod_mult_self2)
  finally show ?thesis .
qed

lemma DayFromYear_Suc: "DayFromYear (y + 1) = DayFromYear y + DaysInYear y"
proof -
  have m4: "(y - 1969 + 1) mod 4 = y mod 4" using mod_shift [of y 4 492] by simp
  have m100: "(y - 1901 + 1) mod 100 = y mod 100" using mod_shift [of y 100 19] by simp
  have m400: "(y - 1601 + 1) mod 400 = y mod 400" using mod_shift [of y 400 4] by simp
  have i1: "y mod 400 = 0 \<Longrightarrow> y mod 100 = 0"
    using mod_mod_cancel [of 100 400 y] by simp
  have i2: "y mod 100 = 0 \<Longrightarrow> y mod 4 = 0"
    using mod_mod_cancel [of 4 100 y] by simp
  have d4: "(y + 1 - 1969) div 4 = (y - 1969) div 4 + (if y mod 4 = 0 then 1 else 0)"
    using div_succ [of 4 "y - 1969"] m4 by (simp add: algebra_simps)
  have d100: "(y + 1 - 1901) div 100 = (y - 1901) div 100 + (if y mod 100 = 0 then 1 else 0)"
    using div_succ [of 100 "y - 1901"] m100 by (simp add: algebra_simps)
  have d400: "(y + 1 - 1601) div 400 = (y - 1601) div 400 + (if y mod 400 = 0 then 1 else 0)"
    using div_succ [of 400 "y - 1601"] m400 by (simp add: algebra_simps)
  show ?thesis
    unfolding DayFromYear_def DaysInYear_def d4 d100 d400
    using i1 i2 by (simp add: algebra_simps)
qed

lemma DaysInYear_pos: "365 \<le> DaysInYear y \<and> DaysInYear y \<le> 366"
  by (simp add: DaysInYear_def)

text \<open>
  \<open>YearFromTime(t)\<close> is the largest \<open>y\<close> with \<open>DayFromYear y \<le> Day t\<close>. It is
  computed by stepping up from a year that is not after it.
\<close>

function year_search :: "int \<Rightarrow> int \<Rightarrow> int" where
  "year_search d y = (if DayFromYear (y + 1) \<le> d then year_search d (y + 1) else y)"
  by pat_completeness auto
termination
proof (relation "measure (\<lambda>(d, y). nat (d - DayFromYear y))")
  show "wf (measure (\<lambda>(d, y). nat (d - DayFromYear y)))" by simp
next
  fix d y :: int
  assume le: "DayFromYear (y + 1) \<le> d"
  have "DayFromYear y < DayFromYear (y + 1)"
    using DayFromYear_Suc [of y] DaysInYear_pos [of y] by simp
  with le show "((d, y + 1), (d, y)) \<in> measure (\<lambda>(d, y). nat (d - DayFromYear y))"
    by simp
qed

declare year_search.simps [simp del]

definition YearFromDay :: "int \<Rightarrow> int" where
  "YearFromDay d = year_search d (1970 + (if 0 \<le> d then d div 366 else d div 365))"

definition YearFromTime :: "int \<Rightarrow> int" where
  "YearFromTime t = YearFromDay (Day t)"

definition InLeapYear :: "int \<Rightarrow> bool" where
  "InLeapYear t = (DaysInYear (YearFromTime t) = 366)"

definition DayWithinYear :: "int \<Rightarrow> int" where
  "DayWithinYear t = Day t - DayFromYear (YearFromTime t)"

text \<open>The day of the year on which month \<open>m\<close> (0 to 11) starts.\<close>

definition DaysBeforeMonth :: "bool \<Rightarrow> int \<Rightarrow> int" where
  "DaysBeforeMonth leap m =
     (let l = (if leap then 1 else 0)
      in if m = 0 then 0 else if m = 1 then 31 else if m = 2 then 59 + l
         else if m = 3 then 90 + l else if m = 4 then 120 + l else if m = 5 then 151 + l
         else if m = 6 then 181 + l else if m = 7 then 212 + l else if m = 8 then 243 + l
         else if m = 9 then 273 + l else if m = 10 then 304 + l else 334 + l)"

definition month_of_year_day :: "bool \<Rightarrow> int \<Rightarrow> int" where
  "month_of_year_day leap d =
     (let l = (if leap then 1 else 0)
      in if d < 31 then 0 else if d < 59 + l then 1 else if d < 90 + l then 2
         else if d < 120 + l then 3 else if d < 151 + l then 4 else if d < 181 + l then 5
         else if d < 212 + l then 6 else if d < 243 + l then 7 else if d < 273 + l then 8
         else if d < 304 + l then 9 else if d < 334 + l then 10 else 11)"

definition MonthFromTime :: "int \<Rightarrow> int" where
  "MonthFromTime t = month_of_year_day (InLeapYear t) (DayWithinYear t)"

definition DateFromTime :: "int \<Rightarrow> int" where
  "DateFromTime t = DayWithinYear t - DaysBeforeMonth (InLeapYear t) (MonthFromTime t) + 1"

definition HourFromTime :: "int \<Rightarrow> int" where
  "HourFromTime t = (t div 3600000) mod 24"

definition MinFromTime :: "int \<Rightarrow> int" where
  "MinFromTime t = (t div 60000) mod 60"

definition SecFromTime :: "int \<Rightarrow> int" where
  "SecFromTime t = (t div 1000) mod 60"

definition msFromTime :: "int \<Rightarrow> int" where
  "msFromTime t = t mod 1000"

definition MakeTime :: "int \<Rightarrow> int \<Rightarrow> int \<Rightarrow> int \<Rightarrow> int" where
  "MakeTime hour minute sec ms = hour * 3600000 + minute * 60000 + sec * 1000 + ms"

text \<open>
  \<open>MakeDay\<close>: the month may lie outside 0 to 11 and carries into the year; the day
  number is that of the first of the month plus \<open>date - 1\<close>. The day is computed
  for every year, as engines do; a day outside the range of dates is refused by
  \<open>TimeClip\<close> in the setters below.
\<close>

definition MakeDay :: "int \<Rightarrow> int \<Rightarrow> int \<Rightarrow> int" where
  "MakeDay year month dt =
     (let ym = year + month div 12; mn = month mod 12
      in DayFromYear ym + DaysBeforeMonth (DaysInYear ym = 366) mn + dt - 1)"

definition MakeDate :: "int \<Rightarrow> int \<Rightarrow> int" where
  "MakeDate day time = day * msPerDay + time"

text \<open>
  The local time zone: \<open>offset_at_utc z t\<close> is \<open>LocalTZA(t, true)\<close>, the offset in
  force at the instant \<open>t\<close>, and \<open>offset_at_local z t\<close> is \<open>LocalTZA(t, false)\<close>, the
  offset by which the local reading \<open>t\<close> of the clock is taken.
\<close>

record zone =
  offset_at_utc :: "int \<Rightarrow> int"
  offset_at_local :: "int \<Rightarrow> int"

definition LocalTime :: "zone \<Rightarrow> date \<Rightarrow> int" where
  "LocalTime z t = t + offset_at_utc z t"

definition UTC :: "zone \<Rightarrow> int \<Rightarrow> int" where
  "UTC z t = t - offset_at_local z t"

text \<open>A zone whose offset never changes (UTC itself, or a zone without daylight saving).\<close>

definition const_zone :: "int \<Rightarrow> zone" where
  "const_zone tza = \<lparr>offset_at_utc = (\<lambda>t. tza), offset_at_local = (\<lambda>t. tza)\<rparr>"

text \<open>
  A zone with daylight saving time, as an example: the rule of America/New_York for 2024,
  five hours behind UTC, and four hours behind from 2024-03-10 07:00 UTC until
  2024-11-03 06:00 UTC. A local reading of the clock that the change of offset skips
  (02:00 to 03:00 on March 10) or repeats (01:00 to 02:00 on November 3) is taken with
  the offset before the change.
\<close>

definition new_york_2024 :: zone where
  "new_york_2024 =
     \<lparr>offset_at_utc =
        (\<lambda>t. if 1710054000000 \<le> t \<and> t < 1730613600000 then - 14400000 else - 18000000),
      offset_at_local =
        (\<lambda>t. if 1710039600000 \<le> t \<and> t < 1730599200000 then - 14400000 else - 18000000)\<rparr>"


text \<open>\<open>TimeClip\<close>: a time beyond 8.64e15 ms from the epoch is no time value.\<close>

definition TimeClip :: "int \<Rightarrow> date option" where
  "TimeClip t = (if \<bar>t\<bar> > 8640000000000000 then None else Some t)"

subsection \<open>The methods of \<open>Date.prototype\<close> the sources reach\<close>

text \<open>The getters and setters, on a date that is valid; a setter may make it invalid.\<close>

definition getFullYear :: "zone \<Rightarrow> date \<Rightarrow> int" where
  "getFullYear z d = YearFromTime (LocalTime z d)"

definition getMonth :: "zone \<Rightarrow> date \<Rightarrow> int" where
  "getMonth z d = MonthFromTime (LocalTime z d)"

definition getDate :: "zone \<Rightarrow> date \<Rightarrow> int" where
  "getDate z d = DateFromTime (LocalTime z d)"

definition getHours :: "zone \<Rightarrow> date \<Rightarrow> int" where
  "getHours z d = HourFromTime (LocalTime z d)"

definition getMinutes :: "zone \<Rightarrow> date \<Rightarrow> int" where
  "getMinutes z d = MinFromTime (LocalTime z d)"

definition getSeconds :: "zone \<Rightarrow> date \<Rightarrow> int" where
  "getSeconds z d = SecFromTime (LocalTime z d)"

definition setDate :: "zone \<Rightarrow> date \<Rightarrow> int \<Rightarrow> date option" where
  "setDate z d dt =
     (let t = LocalTime z d
      in TimeClip
           (UTC z (MakeDate (MakeDay (YearFromTime t) (MonthFromTime t) dt) (TimeWithinDay t))))"

definition setMonth :: "zone \<Rightarrow> date \<Rightarrow> int \<Rightarrow> int \<Rightarrow> date option" where
  "setMonth z d m dt =
     (let t = LocalTime z d
      in TimeClip (UTC z (MakeDate (MakeDay (YearFromTime t) m dt) (TimeWithinDay t))))"

definition setFullYear :: "zone \<Rightarrow> date \<Rightarrow> int \<Rightarrow> int \<Rightarrow> int \<Rightarrow> date option" where
  "setFullYear z d y m dt =
     (let t = LocalTime z d
      in TimeClip (UTC z (MakeDate (MakeDay y m dt) (TimeWithinDay t))))"

definition setHours :: "zone \<Rightarrow> date \<Rightarrow> int \<Rightarrow> int \<Rightarrow> int \<Rightarrow> int \<Rightarrow> date option" where
  "setHours z d h m s ms =
     (let t = LocalTime z d
      in TimeClip (UTC z (MakeDate (Day t) (MakeTime h m s ms))))"

subsection \<open>date-fns\<close>

text \<open>
  The functions of date-fns that \<open>lib/api.ts\<close> imports, as the library defines them
  over \<open>Date.prototype\<close>; the amounts are integers. An Invalid Date stays invalid:
  its getters return NaN and its setters leave it as it is.
\<close>

definition addDays :: "zone \<Rightarrow> date option \<Rightarrow> int \<Rightarrow> date option" where
  "addDays z date amount =
     (case date of
        None \<Rightarrow> None
      | Some d \<Rightarrow> if amount = 0 then Some d else setDate z d (getDate z d + amount))"

definition subDays :: "zone \<Rightarrow> date option \<Rightarrow> int \<Rightarrow> date option" where
  "subDays z date amount = addDays z date (- amount)"

definition addWeeks :: "zone \<Rightarrow> date option \<Rightarrow> int \<Rightarrow> date option" where
  "addWeeks z date amount = addDays z date (amount * 7)"

definition subWeeks :: "zone \<Rightarrow> date option \<Rightarrow> int \<Rightarrow> date option" where
  "subWeeks z date amount = addWeeks z date (- amount)"

text \<open>
  \<open>addMonths\<close> keeps the day of the month unless the target month is shorter, and then
  takes the last day of the target month. When the last day of the target month is no
  valid date, the comparison with its day of the month (NaN) fails and
  \<open>setFullYear\<close> with its year and month (NaN) makes the result invalid.
\<close>

definition addMonths :: "zone \<Rightarrow> date option \<Rightarrow> int \<Rightarrow> date option" where
  "addMonths z date amount =
     (case date of
        None \<Rightarrow> None
      | Some d \<Rightarrow>
          if amount = 0 then Some d
          else
            let dayOfMonth = getDate z d
            in case setMonth z d (getMonth z d + amount + 1) 0 of
                 None \<Rightarrow> None
               | Some endOfDesiredMonth \<Rightarrow>
                   let daysInMonth = getDate z endOfDesiredMonth
                   in if dayOfMonth \<ge> daysInMonth then Some endOfDesiredMonth
                      else setFullYear z d (getFullYear z endOfDesiredMonth)
                             (getMonth z endOfDesiredMonth) dayOfMonth)"

definition subMonths :: "zone \<Rightarrow> date option \<Rightarrow> int \<Rightarrow> date option" where
  "subMonths z date amount = addMonths z date (- amount)"

definition startOfDay :: "zone \<Rightarrow> date option \<Rightarrow> date option" where
  "startOfDay z date = (case date of None \<Rightarrow> None | Some d \<Rightarrow> setHours z d 0 0 0 0)"

definition endOfDay :: "zone \<Rightarrow> date option \<Rightarrow> date option" where
  "endOfDay z date = (case date of None \<Rightarrow> None | Some d \<Rightarrow> setHours z d 23 59 59 999)"



section \<open>The date window (lib/api.ts, \<open>getDateRange\<close>)\<close>

text \<open>
  A range of dates; \<open>'d\<close> is \<open>date option\<close> for the dates that \<open>getDateRange\<close>
  computes, which may be invalid, and \<open>date\<close> for two valid dates.
\<close>

record 'd DateRange =
  range_start :: 'd
  range_end :: 'd

text \<open>\<open>now\<close> is the reading of the clock that \<open>new Date()\<close> returns.\<close>

fun getDateRange :: "zone \<Rightarrow> date \<Rightarrow> DateJump \<Rightarrow> int \<Rightarrow> date option DateRange" where
  "getDateRange z now DayJump offset =
     \<lparr>range_start = startOfDay z (subDays z (Some now) offset),
      range_end = endOfDay z (subDays z (Some now) offset)\<rparr>"
| "getDateRange z now WeekJump offset =
     \<lparr>range_start = startOfDay z (subWeeks z (Some now) (offset + 1)),
      range_end = endOfDay z (subWeeks z (Some now) offset)\<rparr>"
| "getDateRange z now MonthJump offset =
     \<lparr>range_start = startOfDay z (subMonths z (Some now) (offset + 1)),
      range_end = endOfDay z (subMonths z (Some now) offset)\<rparr>"

section \<open>Printing numbers and dates\<close>

text \<open>The decimal digits of a natural number, as \<open>String(n)\<close> prints them.\<close>

fun show_nat :: "nat \<Rightarrow> ustring" where
  "show_nat n = (if n < 10 then [48 + n] else show_nat (n div 10) @ [48 + n mod 10])"

declare show_nat.simps [simp del]

text \<open>\<open>s.padStart(len, c)\<close> for a one-character filler \<open>c\<close>.\<close>

definition padStart :: "nat \<Rightarrow> nat \<Rightarrow> ustring \<Rightarrow> ustring" where
  "padStart len c s = replicate (len - length s) c @ s"

text \<open>date-fns \<open>addLeadingZeros(number, targetLength)\<close>.\<close>

definition addLeadingZeros :: "int \<Rightarrow> nat \<Rightarrow> ustring" where
  "addLeadingZeros number targetLength =
     (let sign = (if number < 0 then js ''-'' else []);
          output = padStart targetLength 48 (show_nat (nat \<bar>number\<bar>))
      in sign @ output)"

text \<open>The month names of the default locale of date-fns (en-US).\<close>

definition month_wide :: "int \<Rightarrow> ustring" where
  "month_wide m =
     (if m = 0 then js ''January'' else if m = 1 then js ''February''
      else if m = 2 then js ''March'' else if m = 3 then js ''April''
      else if m = 4 then js ''May'' else if m = 5 then js ''June''
      else if m = 6 then js ''July'' else if m = 7 then js ''August''
      else if m = 8 then js ''September'' else if m = 9 then js ''October''
      else if m = 10 then js ''November'' else js ''December'')"

definition month_abbreviated :: "int \<Rightarrow> ustring" where
  "month_abbreviated m =
     (if m = 0 then js ''Jan'' else if m = 1 then js ''Feb''
      else if m = 2 then js ''Mar'' else if m = 3 then js ''Apr''
      else if m = 4 then js ''May'' else if m = 5 then js ''Jun''
      else if m = 6 then js ''Jul'' else if m = 7 then js ''Aug''
      else if m = 8 then js ''Sep'' else if m = 9 then js ''Oct''
      else if m = 10 then js ''Nov'' else js ''Dec'')"

text \<open>
  date-fns \<open>format(date, pattern)\<close> splits the pattern into tokens and prints each
  from the local fields of the date. The patterns of the sources use the tokens below;
  a quoted part (\<open>'T'\<close>, \<open>'Z'\<close>) and any other character is printed as it is.
  \<open>format\<close> below prints a valid date; on an Invalid Date the library throws a
  RangeError, which the callers below raise.
\<close>

datatype format_token =
  Tok_yyyy | Tok_MM | Tok_dd | Tok_HH | Tok_mm | Tok_ss | Tok_MMMM | Tok_MMM | Tok_d
  | Lit ustring

text \<open>The year token prints year 0 and the years before it as 1, 2, ... (the era count).\<close>

definition format_year :: "zone \<Rightarrow> date \<Rightarrow> ustring" where
  "format_year z d =
     (let signedYear = getFullYear z d;
          year = (if signedYear > 0 then signedYear else 1 - signedYear)
      in addLeadingZeros year 4)"

fun print_token :: "zone \<Rightarrow> date \<Rightarrow> format_token \<Rightarrow> ustring" where
  "print_token z d Tok_yyyy = format_year z d"
| "print_token z d Tok_MM = addLeadingZeros (getMonth z d + 1) 2"
| "print_token z d Tok_dd = addLeadingZeros (getDate z d) 2"
| "print_token z d Tok_HH = addLeadingZeros (getHours z d) 2"
| "print_token z d Tok_mm = addLeadingZeros (getMinutes z d) 2"
| "print_token z d Tok_ss = addLeadingZeros (getSeconds z d) 2"
| "print_token z d Tok_MMMM = month_wide (getMonth z d)"
| "print_token z d Tok_MMM = month_abbreviated (getMonth z d)"
| "print_token z d Tok_d = addLeadingZeros (getDate z d) 1"
| "print_token z d (Lit s) = s"

definition format :: "zone \<Rightarrow> date \<Rightarrow> format_token list \<Rightarrow> ustring" where
  "format z d pattern = concat (map (print_token z d) pattern)"

text \<open>The pattern \<open>yyyy-MM-dd'T'HH:mm:ss'Z'\<close>.\<close>

definition iso_pattern :: "format_token list" where
  "iso_pattern =
     [Tok_yyyy, Lit (js ''-''), Tok_MM, Lit (js ''-''), Tok_dd, Lit (js ''T''),
      Tok_HH, Lit (js '':''), Tok_mm, Lit (js '':''), Tok_ss, Lit (js ''Z'')]"

text \<open>The patterns \<open>MMMM d, yyyy\<close>, \<open>MMM d\<close> and \<open>MMM d, yyyy\<close>.\<close>

definition day_label_pattern :: "format_token list" where
  "day_label_pattern = [Tok_MMMM, Lit (js '' ''), Tok_d, Lit (js '', ''), Tok_yyyy]"

definition short_pattern :: "format_token list" where
  "short_pattern = [Tok_MMM, Lit (js '' ''), Tok_d]"

definition short_year_pattern :: "format_token list" where
  "short_year_pattern = [Tok_MMM, Lit (js '' ''), Tok_d, Lit (js '', ''), Tok_yyyy]"

text \<open>
  \<open>Date.prototype.toISOString\<close> of a valid date: the UTC fields, with milliseconds;
  a year outside 0 to 9999 is printed with a sign and six digits. On an Invalid Date it
  throws a RangeError, which the caller below raises.
\<close>

definition iso_year :: "int \<Rightarrow> ustring" where
  "iso_year y =
     (if 0 \<le> y \<and> y \<le> 9999 then padStart 4 48 (show_nat (nat y))
      else (if y < 0 then js ''-'' else js ''+'') @ padStart 6 48 (show_nat (nat \<bar>y\<bar>)))"

definition iso_fields :: "date \<Rightarrow> ustring" where
  "iso_fields d =
     js ''-'' @ padStart 2 48 (show_nat (nat (MonthFromTime d + 1)))
     @ js ''-'' @ padStart 2 48 (show_nat (nat (DateFromTime d)))
     @ js ''T'' @ padStart 2 48 (show_nat (nat (HourFromTime d)))
     @ js '':'' @ padStart 2 48 (show_nat (nat (MinFromTime d)))
     @ js '':'' @ padStart 2 48 (show_nat (nat (SecFromTime d)))
     @ js ''.'' @ padStart 3 48 (show_nat (nat (msFromTime d)))
     @ js ''Z''"

definition toISOString :: "date \<Rightarrow> ustring" where
  "toISOString d = iso_year (YearFromTime d) @ iso_fields d"

section \<open>The search request (lib/api.ts)\<close>

text \<open>
  A parsed JSON value, as \<open>response.json()\<close> returns it. An object is the list of
  its own properties, each name once. A number is kept as what the code can observe of
  it: whether it is zero, and its string conversion.
\<close>

datatype json =
  JNull | JBool bool | JNum bool ustring | JStr ustring | JArr "json list"
  | JObj "(ustring \<times> json) list"

text \<open>Truthiness, as \<open>||\<close> tests it.\<close>

fun js_truthy :: "json \<Rightarrow> bool" where
  "js_truthy JNull = False"
| "js_truthy (JBool b) = b"
| "js_truthy (JNum zero s) = (\<not> zero)"
| "js_truthy (JStr s) = (s \<noteq> [])"
| "js_truthy (JArr xs) = True"
| "js_truthy (JObj kv) = True"

datatype js_error = Error ustring | TypeError | RangeError | SyntaxError | NetworkError

text \<open>
  \<open>String(v)\<close>, which \<open>new Error(v)\<close> applies to its argument. An array prints its
  elements separated by commas, \<open>null\<close> as nothing. An object prints as
  \<open>[object Object]\<close> through \<open>Object.prototype.toString\<close>, unless it has a property
  \<open>toString\<close> of its own: a parsed value is never a function, no primitive value comes
  out of the conversion, and it throws a TypeError.
\<close>

fun js_toString :: "json \<Rightarrow> js_error + ustring"
  and js_toStrings :: "json list \<Rightarrow> js_error + ustring list" where
  "js_toString JNull = Inr (js ''null'')"
| "js_toString (JBool b) = Inr (if b then js ''true'' else js ''false'')"
| "js_toString (JNum zero s) = Inr s"
| "js_toString (JStr s) = Inr s"
| "js_toString (JArr xs) =
     (case js_toStrings xs of Inl e \<Rightarrow> Inl e | Inr ss \<Rightarrow> Inr (join (js '','') ss))"
| "js_toString (JObj kv) =
     (if map_of kv (js ''toString'') = None then Inr (js ''[object Object]'') else Inl TypeError)"
| "js_toStrings [] = Inr []"
| "js_toStrings (x # xs) =
     (case (if x = JNull then Inr [] else js_toString x) of
        Inl e \<Rightarrow> Inl e
      | Inr s1 \<Rightarrow> (case js_toStrings xs of Inl e \<Rightarrow> Inl e | Inr ss \<Rightarrow> Inr (s1 # ss)))"

text \<open>
  \<open>v.p\<close> for a parsed JSON value \<open>v\<close> and a property name \<open>p\<close> that no array or
  string has of its own: a TypeError on \<open>null\<close>, \<open>undefined\<close> (\<open>None\<close>) when the
  property is missing.
\<close>

fun get_property :: "json \<Rightarrow> ustring \<Rightarrow> js_error + json option" where
  "get_property JNull p = Inl TypeError"
| "get_property (JObj kv) p = Inr (map_of kv p)"
| "get_property v p = Inr None"

record http_request =
  req_url :: ustring
  req_params :: "(ustring \<times> ustring) list"
  req_headers :: "(ustring \<times> ustring) list"

text \<open>
  A response: its status and its body parsed as JSON (\<open>None\<close> when the body is not
  JSON, and \<open>response.json()\<close> rejects).
\<close>

record http_response =
  status :: nat
  body :: "json option"

definition ok :: "http_response \<Rightarrow> bool" where
  "ok r = (200 \<le> status r \<and> status r \<le> 299)"

text \<open>\<open>fetch\<close>: the upstream, which answers a request or fails to.\<close>

type_synonym upstream = "http_request \<Rightarrow> js_error + http_response"

definition API_URL :: ustring where
  "API_URL = js ''https://api.github.com/search/repositories''"

record FetchParams =
  fp_language :: "ustring option"
  fp_dateRange :: "date option DateRange"
  fp_token :: "ustring option"

text \<open>\<open>format\<close> throws a RangeError on an Invalid Date.\<close>

definition formatDateRange :: "zone \<Rightarrow> date option DateRange \<Rightarrow> js_error + ustring" where
  "formatDateRange z dateRange =
     (case range_start dateRange of
        None \<Rightarrow> Inl RangeError
      | Some s \<Rightarrow>
          (case range_end dateRange of
             None \<Rightarrow> Inl RangeError
           | Some e \<Rightarrow>
               (let start = format z s iso_pattern;
                    end' = format z e iso_pattern
                in Inr (js ''created:'' @ start @ js ''..'' @ end'))))"

text \<open>The request that \<open>fetchRepositories\<close> builds.\<close>

definition build_request :: "zone \<Rightarrow> FetchParams \<Rightarrow> js_error + http_request" where
  "build_request z params =
     (case formatDateRange z (fp_dateRange params) of
        Inl e \<Rightarrow> Inl e
      | Inr dateQuery \<Rightarrow>
          (let languageQuery =
                 (case fp_language params of
                    None \<Rightarrow> []
                  | Some l \<Rightarrow> if truthy_str l then js ''language:'' @ l @ js '' '' else []);
               query = languageQuery @ dateQuery;
               headers = [(js ''Accept'', js ''application/vnd.github.v3+json'')]
                 @ (case fp_token params of
                      None \<Rightarrow> []
                    | Some t \<Rightarrow>
                        if truthy_str t then [(js ''Authorization'', js ''Bearer '' @ t)]
                        else [])
           in Inr \<lparr>req_url = API_URL,
                   req_params = [(js ''q'', query), (js ''sort'', js ''stars''),
                                 (js ''order'', js ''desc''), (js ''per_page'', js ''25'')],
                   req_headers = headers\<rparr>))"

text \<open>
  The error of a response that is not ok: \<open>response.json().catch(() => ({}))\<close>, then
  \<open>new Error(error.message || `GitHub API error: ${response.status}`)\<close>. Reading
  \<open>message\<close> of \<open>null\<close> and converting the message to a string may throw instead.
\<close>

definition response_error :: "http_response \<Rightarrow> js_error" where
  "response_error response =
     (let error = (case body response of None \<Rightarrow> JObj [] | Some v \<Rightarrow> v);
          generic = js ''GitHub API error: '' @ show_nat (status response)
      in case get_property error (js ''message'') of
           Inl e \<Rightarrow> e
         | Inr message \<Rightarrow>
             (case message of
                None \<Rightarrow> Error generic
              | Some m \<Rightarrow>
                  if js_truthy m
                  then (case js_toString m of Inl e \<Rightarrow> e | Inr text \<Rightarrow> Error text)
                  else Error generic))"

definition fetchRepositories :: "zone \<Rightarrow> upstream \<Rightarrow> FetchParams \<Rightarrow> js_error + json" where
  "fetchRepositories z fetch params =
     (case build_request z params of
        Inl e \<Rightarrow> Inl e
      | Inr request \<Rightarrow>
          (case fetch request of
             Inl e \<Rightarrow> Inl e
           | Inr response \<Rightarrow>
               if \<not> ok response then Inl (response_error response)
               else (case body response of None \<Rightarrow> Inl SyntaxError | Some v \<Rightarrow> Inr v)))"

text \<open>The label of a group, for two valid dates.\<close>

definition formatDateRangeLabel :: "zone \<Rightarrow> date DateRange \<Rightarrow> DateJump \<Rightarrow> ustring" where
  "formatDateRangeLabel z dateRange jump =
     (if jump = DayJump then format z (range_start dateRange) day_label_pattern
      else format z (range_start dateRange) short_pattern @ js '' - ''
           @ format z (range_end dateRange) short_year_pattern)"

text \<open>
  Upstreams for the examples: a validation failure, a failure without a body, and a
  failure whose body is the JSON value \<open>null\<close>.
\<close>

definition upstream_422 :: upstream where
  "upstream_422 request =
     Inr \<lparr>status = 422, body = Some (JObj [(js ''message'', JStr (js ''Validation Failed''))])\<rparr>"

definition upstream_500 :: upstream where
  "upstream_500 request = Inr \<lparr>status = 500, body = None\<rparr>"

definition upstream_500_null :: upstream where
  "upstream_500_null request = Inr \<lparr>status = 500, body = Some JNull\<rparr>"

text \<open>A failure whose message is an object with a property \<open>toString\<close>.\<close>

definition upstream_500_object :: upstream where
  "upstream_500_object request =
     Inr \<lparr>status = 500,
          body = Some (JObj [(js ''message'',
                              JObj [(js ''toString'', JNum False (js ''1''))])])\<rparr>"

text \<open>The language part of the query: empty without a language.\<close>

definition language_filter :: "ustring option \<Rightarrow> ustring" where
  "language_filter lang =
     (case lang of None \<Rightarrow> [] | Some l \<Rightarrow> if l = [] then [] else js ''language:'' @ l @ js '' '')"

text \<open>The zone UTC, and a zone one hour ahead of UTC all year.\<close>

definition utc :: zone where
  "utc = const_zone 0"

definition utc_plus_1 :: zone where
  "utc_plus_1 = const_zone 3600000"

text \<open>
  The fragment that the specification describes: \<open>created:<start>..<end>\<close> with the
  two bounds in UTC, to the second, each followed by \<open>Z\<close>.
\<close>

definition spec_date_fragment :: "date \<Rightarrow> date \<Rightarrow> ustring" where
  "spec_date_fragment s e =
     js ''created:'' @ format utc s iso_pattern @ js ''..'' @ format utc e iso_pattern"

text \<open>The week window of 2024-01-15, 12:00 UTC, in the zone UTC, and its two bounds.\<close>

definition sample_window :: "date option DateRange" where
  "sample_window = getDateRange utc 1705320000000 WeekJump 0"

definition sample_dates :: "date DateRange" where
  "sample_dates = \<lparr>range_start = 1704672000000, range_end = 1705363199999\<rparr>"

definition sample_params :: FetchParams where
  "sample_params =
     \<lparr>fp_language = Some (js ''TypeScript''), fp_dateRange = sample_window, fp_token = None\<rparr>"

text \<open>The day window of the same instant in the zone one hour ahead of UTC.\<close>

definition day_params_plus_1 :: FetchParams where
  "day_params_plus_1 =
     \<lparr>fp_language = None, fp_dateRange = getDateRange utc_plus_1 1705320000000 DayJump 0,
      fp_token = None\<rparr>"

section \<open>Shapes of printed strings\<close>

definition is_digit :: "nat \<Rightarrow> bool" where
  "is_digit c = (48 \<le> c \<and> c \<le> 57)"

text \<open>
  A template of a string: a decimal digit, or one given character. A string matches a
  template when it has the same length and agrees with it position by position.
\<close>

datatype template_char = Digit | Char nat

fun matches :: "template_char list \<Rightarrow> ustring \<Rightarrow> bool" where
  "matches [] [] = True"
| "matches (Digit # t) (c # s) = (is_digit c \<and> matches t s)"
| "matches (Char k # t) (c # s) = (c = k \<and> matches t s)"
| "matches _ _ = False"

text \<open>
  \<open>DDDD-DD-DDTDD:DD:DDZ\<close>: an ISO 8601 date and time with second precision and the
  UTC designator \<open>Z\<close>.
\<close>

definition iso_seconds_template :: "template_char list" where
  "iso_seconds_template =
     [Digit, Digit, Digit, Digit, Char 45, Digit, Digit, Char 45, Digit, Digit, Char 84,
      Digit, Digit, Char 58, Digit, Digit, Char 58, Digit, Digit, Char 90]"

text \<open>Years that \<open>yyyy\<close> prints with exactly four digits.\<close>

definition four_digit_year :: "zone \<Rightarrow> date \<Rightarrow> bool" where
  "four_digit_year z d = (1 \<le> getFullYear z d \<and> getFullYear z d \<le> 9999)"

text \<open>The dash characters: hyphen-minus, en dash and em dash.\<close>

definition is_dash :: "nat \<Rightarrow> bool" where
  "is_dash c = (c = 45 \<or> c = 8211 \<or> c = 8212)"

definition dash_free :: "ustring \<Rightarrow> bool" where
  "dash_free s = list_all (\<lambda>c. \<not> is_dash c) s"

section \<open>The paginated feed (hooks/useRepositories.ts)\<close>

record RepositoryGroup =
  group_start :: ustring
  group_end :: ustring
  repositories :: "json option"

text \<open>What the hook reads from the preferences store.\<close>

record preferences =
  pref_language :: ustring
  pref_dateJump :: DateJump
  pref_token :: "ustring option"

text \<open>
  The query function of one page. The clock is read once, by \<open>getDateRange\<close>;
  \<open>toISOString\<close> throws a RangeError on an Invalid Date; \<open>repositories\<close> is the
  \<open>items\<close> property of the parsed response (\<open>None\<close> is \<open>undefined\<close>).
\<close>

definition queryFn ::
  "zone \<Rightarrow> upstream \<Rightarrow> preferences \<Rightarrow> date \<Rightarrow> int \<Rightarrow> js_error + RepositoryGroup" where
  "queryFn z fetch prefs now pageParam =
     (let dateRange = getDateRange z now (pref_dateJump prefs) pageParam
      in case fetchRepositories z fetch
                \<lparr>fp_language = Some (pref_language prefs), fp_dateRange = dateRange,
                 fp_token = pref_token prefs\<rparr> of
           Inl e \<Rightarrow> Inl e
         | Inr response \<Rightarrow>
             (case range_start dateRange of
                None \<Rightarrow> Inl RangeError
              | Some s \<Rightarrow>
                  (case range_end dateRange of
                     None \<Rightarrow> Inl RangeError
                   | Some e \<Rightarrow>
                       (case get_property response (js ''items'') of
                          Inl err \<Rightarrow> Inl err
                        | Inr items \<Rightarrow>
                            Inr \<lparr>group_start = toISOString s, group_end = toISOString e,
                                 repositories = items\<rparr>))))"

text \<open>
  \<open>useInfiniteQuery\<close> keeps the pages fetched so far and the parameter of each. The
  first page is fetched with \<open>initialPageParam\<close>, every further one with
  \<open>getNextPageParam(lastPage, allPages)\<close>; a page that fails is not added.
\<close>

record infinite_data =
  pages :: "RepositoryGroup list"
  pageParams :: "int list"

definition initialPageParam :: int where
  "initialPageParam = 0"

definition getNextPageParam :: "RepositoryGroup \<Rightarrow> RepositoryGroup list \<Rightarrow> int" where
  "getNextPageParam lastPage allPages = int (length allPages)"

definition no_pages :: infinite_data where
  "no_pages = \<lparr>pages = [], pageParams = []\<rparr>"

definition fetchNextPage ::
  "zone \<Rightarrow> upstream \<Rightarrow> preferences \<Rightarrow> date \<Rightarrow> infinite_data \<Rightarrow> js_error + infinite_data" where
  "fetchNextPage z fetch prefs now data =
     (let pageParam =
            (if pages data = [] then initialPageParam
             else getNextPageParam (last (pages data)) (pages data))
      in case queryFn z fetch prefs now pageParam of
           Inl e \<Rightarrow> Inl e
         | Inr page \<Rightarrow>
             Inr \<lparr>pages = pages data @ [page], pageParams = pageParams data @ [pageParam]\<rparr>)"

text \<open>Pages fetched one after the other; each fetch has its own reading of the clock.\<close>

fun fetchPages ::
  "zone \<Rightarrow> upstream \<Rightarrow> preferences \<Rightarrow> date list \<Rightarrow> infinite_data \<Rightarrow> js_error + infinite_data"
  where
  "fetchPages z fetch prefs [] data = Inr data"
| "fetchPages z fetch prefs (now # clock) data =
     (case fetchNextPage z fetch prefs now data of
        Inl e \<Rightarrow> Inl e
      | Inr data' \<Rightarrow> fetchPages z fetch prefs clock data')"

text \<open>The key of a group in the rendered list.\<close>

definition group_key :: "RepositoryGroup \<Rightarrow> ustring \<times> ustring" where
  "group_key g = (group_start g, group_end g)"

text \<open>The group of a window with two valid bounds, for a given list of items.\<close>

definition window_group :: "date \<Rightarrow> date \<Rightarrow> json \<Rightarrow> RepositoryGroup" where
  "window_group s e items =
     \<lparr>group_start = toISOString s, group_end = toISOString e, repositories = Some items\<rparr>"

text \<open>The number a string of digits denotes.\<close>

definition read_nat :: "ustring \<Rightarrow> nat" where
  "read_nat s = foldl (\<lambda>a c. 10 * a + (c - 48)) 0 s"

text \<open>A mocked upstream that answers every request with the same five items.\<close>

definition five_items :: "json list" where
  "five_items =
     [JObj [(js ''id'', JNum False (js ''1''))], JObj [(js ''id'', JNum False (js ''2''))],
      JObj [(js ''id'', JNum False (js ''3''))], JObj [(js ''id'', JNum False (js ''4''))],
      JObj [(js ''id'', JNum False (js ''5''))]]"

definition upstream_fixed :: upstream where
  "upstream_fixed request =
     Inr \<lparr>status = 200,
          body = Some (JObj [(js ''total_count'', JNum False (js ''5'')),
                             (js ''incomplete_results'', JBool False),
                             (js ''items'', JArr five_items)])\<rparr>"

definition day_prefs :: preferences where
  "day_prefs = \<lparr>pref_language = [], pref_dateJump = DayJump, pref_token = None\<rparr>"

text \<open>The upstream answers every request with status 200 and the same object.\<close>

definition fixed_result :: "upstream \<Rightarrow> (ustring \<times> json) list \<Rightarrow> bool" where
  "fixed_result fetch kv = (\<forall>request. fetch request = Inr \<lparr>status = 200, body = Some (JObj kv)\<rparr>)"


section \<open>Properties of the bookmarks store\<close>

lemma dropWhile_blank: "blank s \<Longrightarrow> dropWhile is_js_space s = []"
  by (simp add: blank_def list_all_iff)

lemma trim_blank: "blank s \<Longrightarrow> trim s = []"
  by (simp add: trim_def dropWhile_blank)

lemma trim_empty_iff: "trim s = [] \<longleftrightarrow> blank s"
proof
  assume "trim s = []"
  then have "\<forall>x \<in> set (dropWhile is_js_space s). is_js_space x"
    by (simp add: trim_def)
  then have "dropWhile is_js_space s = []"
  proof (cases "dropWhile is_js_space s")
    case (Cons a list)
    then have "\<not> is_js_space a"
      using hd_dropWhile [of is_js_space s] by simp
    moreover have "is_js_space a"
      using \<open>\<forall>x \<in> set (dropWhile is_js_space s). is_js_space x\<close> Cons by simp
    ultimately show ?thesis by simp
  qed simp
  then show "blank s"
    by (simp add: blank_def list_all_iff)
qed (rule trim_blank)

lemma store_inv_add: "store_inv s \<Longrightarrow> store_inv (addBookmark r s)"
  by (auto simp: store_inv_def ids_consistent_def notes_bookmarked_def addBookmark_def)

lemma store_inv_remove: "store_inv s \<Longrightarrow> store_inv (removeBookmark i s)"
  by (auto simp: store_inv_def ids_consistent_def notes_bookmarked_def removeBookmark_def
           split: if_splits)

lemma getNote_removeBookmark: "getNote (removeBookmark i s) i = None"
  by (simp add: getNote_def removeBookmark_def)

lemma store_inv_toggle: "store_inv s \<Longrightarrow> store_inv (toggleBookmark r s)"
  by (simp add: toggleBookmark_def store_inv_add store_inv_remove)

lemma store_inv_setNote:
  "store_inv s \<Longrightarrow> i \<in> bookmarkedIds s \<or> blank note \<Longrightarrow> store_inv (setNote i note s)"
  by (auto simp: store_inv_def ids_consistent_def notes_bookmarked_def setNote_def
                 truthy_str_def trim_empty_iff split: if_splits)

text \<open>
  C8 (as stated): every operation of the store, \<open>setNote\<close> included, keeps the
  consistency of ids and notes. It fails for \<open>setNote\<close>: the action has no check
  that the id is bookmarked (the note editor is only rendered for a bookmarked
  repository), so on the empty store a note for repository 1 is stored although nothing
  is bookmarked.
\<close>

theorem setNote_breaks_inv_counterexample:
  "store_inv initial_bookmarks \<and> \<not> store_inv (setNote 1 (js ''x'') initial_bookmarks)"
  by (simp add: store_inv_def ids_consistent_def notes_bookmarked_def initial_bookmarks_def
                setNote_def truthy_str_def trim_def js_def is_js_space_def)

text \<open>
  C8 (amended): on a consistent store, \<open>addBookmark\<close>, \<open>removeBookmark\<close> and
  \<open>toggleBookmark\<close> keep the ids equal to the ids of the listed repositories and
  every note key bookmarked; \<open>removeBookmark\<close> also deletes the note of the removed
  id; \<open>setNote\<close> keeps the consistency when the id is bookmarked or the note is
  blank.
\<close>

theorem bookmarks_store_inv:
  "store_inv s \<Longrightarrow>
     store_inv (addBookmark r s)
     \<and> store_inv (removeBookmark i s)
     \<and> getNote (removeBookmark i s) i = None
     \<and> store_inv (toggleBookmark r s)
     \<and> (i \<in> bookmarkedIds s \<or> blank note \<longrightarrow> store_inv (setNote i note s))"
  by (simp add: store_inv_add store_inv_remove store_inv_toggle store_inv_setNote
                getNote_removeBookmark)

theorem bookmarks_store_inv_witness:
  "store_inv (addBookmark sample_repo initial_bookmarks)
   \<and> 1 \<in> bookmarkedIds (addBookmark sample_repo initial_bookmarks)
   \<and> store_inv (setNote 1 (js ''x'') (addBookmark sample_repo initial_bookmarks))
   \<and> store_inv (removeBookmark 1 (addBookmark sample_repo initial_bookmarks))
   \<and> getNote (removeBookmark 1 (addBookmark sample_repo initial_bookmarks)) 1 = None"
proof -
  have i0: "store_inv initial_bookmarks"
    by (simp add: store_inv_def ids_consistent_def notes_bookmarked_def initial_bookmarks_def)
  have i1: "store_inv (addBookmark sample_repo initial_bookmarks)"
    using bookmarks_store_inv [OF i0, of sample_repo] by simp
  have m: "1 \<in> bookmarkedIds (addBookmark sample_repo initial_bookmarks)"
    by (simp add: addBookmark_def sample_repo_def)
  show ?thesis
    using i1 m bookmarks_store_inv [OF i1, of sample_repo 1 "js ''x''"] by simp
qed

text \<open>
  C9: \<open>setNote\<close> with an empty or white-space-only string removes the note of
  that id, so \<open>getNote\<close> returns nothing afterwards; a note is stored (unchanged,
  not trimmed) exactly when its trimmed content is not empty.
\<close>

theorem setNote_blank_removes:
  "(blank note \<longrightarrow> getNote (setNote i note s) i = None)
   \<and> (\<not> blank note \<longrightarrow> getNote (setNote i note s) i = Some note)
   \<and> (getNote (setNote i note s) i \<noteq> None \<longleftrightarrow> trim note \<noteq> [])
   \<and> blank []"
  by (simp add: getNote_def setNote_def truthy_str_def trim_empty_iff blank_def)

theorem setNote_blank_removes_witness:
  "blank (js '' '') \<and> \<not> blank (js ''ok'')
   \<and> getNote (setNote 1 (js '' '') (setNote 1 (js ''ok'') initial_bookmarks)) 1 = None
   \<and> getNote (setNote 1 (js ''ok'') initial_bookmarks) 1 = Some (js ''ok'')"
proof -
  have b: "blank (js '' '')" and nb: "\<not> blank (js ''ok'')"
    by (simp_all add: blank_def js_def is_js_space_def)
  show ?thesis
    using b nb
      setNote_blank_removes [of "js '' ''" 1 "setNote 1 (js ''ok'') initial_bookmarks"]
      setNote_blank_removes [of "js ''ok''" 1 initial_bookmarks]
    by blast
qed

section \<open>Properties of the RSS export\<close>

lemma replaceAll_char_append:
  "replaceAll_char c r (a @ b) = replaceAll_char c r a @ replaceAll_char c r b"
  by (simp add: replaceAll_char_def)

lemma escapeXml_append: "escapeXml (a @ b) = escapeXml a @ escapeXml b"
  by (simp add: escapeXml_def replaceAll_char_append)

lemma escapeXml_single: "escapeXml [c] = xml_entity c"
  by (simp add: escapeXml_def xml_entity_def replaceAll_char_def js_def)

lemma escapeXml_map: "escapeXml s = concat (map xml_entity s)"
proof (induction s)
  case Nil
  show ?case by (simp add: escapeXml_def replaceAll_char_def)
next
  case (Cons c s)
  have "escapeXml (c # s) = escapeXml [c] @ escapeXml s"
    using escapeXml_append [of "[c]" s] by simp
  then show ?case by (simp add: escapeXml_single Cons.IH)
qed

lemma xml_entity_set: "set (xml_entity c) \<inter> {60, 62, 34, 39} = {}"
  by (simp add: xml_entity_def js_def)

lemma escapeXml_no_specials: "set (escapeXml s) \<inter> {60, 62, 34, 39} = {}"
  using xml_entity_set by (auto simp: escapeXml_map)

lemma amps_entity_append:
  "amps_in_entities rest \<Longrightarrow> amps_in_entities (xml_entity c @ rest)"
  by (simp add: xml_entity_def xml_entities_def js_def)

lemma escapeXml_amps: "amps_in_entities (escapeXml s)"
  by (induction s) (simp_all add: escapeXml_map amps_entity_append)

lemma rss_item_escaped:
  "\<exists>a b c. rss_item h repo =
     a @ js ''<title>'' @ escapeXml (full_name repo) @ js ''</title>''
     @ b @ js ''<author>'' @ escapeXml (login (repo_owner repo)) @ js ''</author>'' @ c"
proof -
  define a where "a = nl @ js ''    <item>'' @ nl @ js ''      ''"
  define b where \<open>b =
     nl @ js ''      <link>'' @ html_url repo @ js ''</link>'' @ nl
     @ js ''      <description><![CDATA[''
     @ or_default (description repo) (js ''No description'') @ nl
     @ nl
     @ [0x2B50] @ js '' '' @ toLocaleString h (stargazers_count repo) @ js '' stars | ''
     @ [0xD83C, 0xDF74] @ js '' '' @ toLocaleString h (forks_count repo) @ js '' forks''
     @ (case language repo of
          None \<Rightarrow> []
        | Some l \<Rightarrow>
            if truthy_str l then js '' | '' @ [0xD83D, 0xDCBB] @ js '' '' @ l else [])
     @ js '']]></description>'' @ nl
     @ js ''      <guid isPermaLink="true">'' @ html_url repo @ js ''</guid>'' @ nl
     @ js ''      <pubDate>'' @ toUTCString h (created_at repo) @ js ''</pubDate>'' @ nl
     @ js ''      ''\<close>
  define c where "c = nl @ js ''    </item>''"
  have "rss_item h repo =
     a @ js ''<title>'' @ escapeXml (full_name repo) @ js ''</title>''
     @ b @ js ''<author>'' @ escapeXml (login (repo_owner repo)) @ js ''</author>'' @ c"
    by (simp add: rss_item_def a_def b_def c_def js_def)
  then show ?thesis by blast
qed

lemma generateRSSFeed_escaped:
  "\<exists>a b c d. generateRSSFeed h repos options =
     a @ js ''<title>'' @ escapeXml (rss_title options) @ js ''</title>''
     @ b @ js ''<description>'' @ escapeXml (rss_description options) @ js ''</description>''
     @ c @ concat (map (rss_item h) repos) @ d"
proof -
  define base where
    "base = (case baseUrl options of None \<Rightarrow> js ''https://githunt.dev'' | Some u \<Rightarrow> u)"
  define a where \<open>a =
     js ''<?xml version="1.0" encoding="UTF-8"?>'' @ nl
     @ js ''<rss version="2.0" xmlns:atom="http://www.w3.org/2005/Atom">'' @ nl
     @ js ''  <channel>'' @ nl @ js ''    ''\<close>
  define b where "b = nl @ js ''    <link>'' @ base @ js ''</link>'' @ nl @ js ''    ''"
  define c where \<open>c =
     nl @ js ''    <language>en-us</language>'' @ nl
     @ js ''    <lastBuildDate>'' @ nowUTCString h @ js ''</lastBuildDate>'' @ nl
     @ js ''    <atom:link href="'' @ base
     @ js ''/rss" rel="self" type="application/rss+xml"/>'' @ nl
     @ js ''    ''\<close>
  define d where "d = nl @ js ''  </channel>'' @ nl @ js ''</rss>''"
  have "generateRSSFeed h repos options =
     a @ js ''<title>'' @ escapeXml (rss_title options) @ js ''</title>''
     @ b @ js ''<description>'' @ escapeXml (rss_description options) @ js ''</description>''
     @ c @ concat (map (rss_item h) repos) @ d"
    by (simp add: generateRSSFeed_def Let_def a_def b_def c_def d_def base_def js_def)
  then show ?thesis by blast
qed

text \<open>
  C10: \<open>escapeXml\<close> replaces every occurrence of the five special characters by
  its entity reference, so its output has no \<open><\<close>, \<open>>\<close>, \<open>"\<close> or
  \<open>'\<close> and every \<open>&\<close> in it starts one of the five references;
  \<open>generateRSSFeed\<close> puts the escaped title and description into the channel and
  the escaped full name and owner login into the title and author of each item.
\<close>

theorem escapeXml_entities:
  "escapeXml s = concat (map xml_entity s)
   \<and> set (escapeXml s) \<inter> {60, 62, 34, 39} = {}
   \<and> amps_in_entities (escapeXml s)
   \<and> (\<exists>a b c d. generateRSSFeed h repos options =
          a @ js ''<title>'' @ escapeXml (rss_title options) @ js ''</title>''
          @ b @ js ''<description>'' @ escapeXml (rss_description options)
          @ js ''</description>'' @ c @ concat (map (rss_item h) repos) @ d)
   \<and> (\<exists>a b c. rss_item h repo =
          a @ js ''<title>'' @ escapeXml (full_name repo) @ js ''</title>''
          @ b @ js ''<author>'' @ escapeXml (login (repo_owner repo)) @ js ''</author>'' @ c)"
proof (intro conjI)
  show "escapeXml s = concat (map xml_entity s)" by (rule escapeXml_map)
  show "set (escapeXml s) \<inter> {60, 62, 34, 39} = {}" by (rule escapeXml_no_specials)
  show "amps_in_entities (escapeXml s)" by (rule escapeXml_amps)
qed (rule generateRSSFeed_escaped rss_item_escaped)+

theorem escapeXml_entities_witness:
  \<open>escapeXml (js ''<a href="x">R&D's</a>'')
     = js ''&lt;a href=&quot;x&quot;&gt;R&amp;D&apos;s&lt;/a&gt;''
   \<and> amps_in_entities (js ''&lt;a href=&quot;x&quot;&gt;R&amp;D&apos;s&lt;/a&gt;'')\<close>
proof -
  have e: \<open>concat (map xml_entity (js ''<a href="x">R&D's</a>''))
            = js ''&lt;a href=&quot;x&quot;&gt;R&amp;D&apos;s&lt;/a&gt;''\<close>
    by (simp add: xml_entity_def js_def)
  have t1: \<open>escapeXml (js ''<a href="x">R&D's</a>'')
             = concat (map xml_entity (js ''<a href="x">R&D's</a>''))\<close>
    and t2: \<open>amps_in_entities (escapeXml (js ''<a href="x">R&D's</a>''))\<close>
    using escapeXml_entities [of \<open>js ''<a href="x">R&D's</a>''\<close>]
    by (rule conjunct1, rule conjunct1 [OF conjunct2 [OF conjunct2]])
  have t3: \<open>escapeXml (js ''<a href="x">R&D's</a>'')
             = js ''&lt;a href=&quot;x&quot;&gt;R&amp;D&apos;s&lt;/a&gt;''\<close>
    using t1 e by (rule trans)
  show ?thesis using t2 t3 by (simp only: simp_thms)
qed

section \<open>Properties of the calendar\<close>

lemma DayFromYear_less_Suc: "DayFromYear y < DayFromYear (y + 1)"
  using DayFromYear_Suc [of y] DaysInYear_pos [of y] by simp

lemma DayFromYear_mono: "y \<le> y' \<Longrightarrow> DayFromYear y \<le> DayFromYear y'"
proof (induction y' rule: int_ge_induct)
  case base
  show ?case by simp
next
  case (step i)
  then show ?case using DayFromYear_less_Suc [of i] by simp
qed

lemma DayFromYear_strict: "y < y' \<Longrightarrow> DayFromYear y < DayFromYear y'"
  using DayFromYear_mono [of "y + 1" y'] DayFromYear_less_Suc [of y] by simp

lemma DayFromYear_1970: "DayFromYear 1970 = 0"
  by (simp add: DayFromYear_def)

lemma DayFromYear_upper: "0 \<le> q \<Longrightarrow> DayFromYear (1970 + q) \<le> 366 * q"
proof (induction q rule: int_ge_induct)
  case base
  show ?case by (simp add: DayFromYear_1970)
next
  case (step i)
  have "DayFromYear (1970 + (i + 1)) = DayFromYear (1970 + i) + DaysInYear (1970 + i)"
    using DayFromYear_Suc [of "1970 + i"] by (simp add: add.assoc)
  then show ?case using step.IH DaysInYear_pos [of "1970 + i"] by simp
qed

lemma DayFromYear_lower: "q \<le> 0 \<Longrightarrow> DayFromYear (1970 + q) \<le> 365 * q"
proof (induction q rule: int_le_induct)
  case base
  show ?case by (simp add: DayFromYear_1970)
next
  case (step i)
  have "DayFromYear (1970 + i) = DayFromYear (1970 + (i - 1)) + DaysInYear (1970 + (i - 1))"
    using DayFromYear_Suc [of "1970 + (i - 1)"] by simp
  then show ?case using step.IH DaysInYear_pos [of "1970 + (i - 1)"] by simp
qed

lemma year_search_correct:
  "DayFromYear y0 \<le> d \<Longrightarrow>
     DayFromYear (year_search d y0) \<le> d \<and> d < DayFromYear (year_search d y0 + 1)"
proof (induction d y0 rule: year_search.induct)
  case (1 d y)
  show ?case
  proof (cases "DayFromYear (y + 1) \<le> d")
    case True
    then show ?thesis using "1.IH" by (simp add: year_search.simps [of d y])
  next
    case False
    then show ?thesis using "1.prems" by (simp add: year_search.simps [of d y])
  qed
qed

lemma YearFromDay_bounds:
  "DayFromYear (YearFromDay d) \<le> d \<and> d < DayFromYear (YearFromDay d + 1)"
proof -
  have "DayFromYear (1970 + (if 0 \<le> d then d div 366 else d div 365)) \<le> d"
  proof (cases "0 \<le> d")
    case True
    then have "0 \<le> d div 366" by simp
    then have "DayFromYear (1970 + d div 366) \<le> 366 * (d div 366)"
      by (rule DayFromYear_upper)
    also have "\<dots> \<le> d" by simp
    finally show ?thesis using True by simp
  next
    case False
    then have "d div 365 \<le> 0" by (simp add: div_int_pos_iff not_le) 
    then have "DayFromYear (1970 + d div 365) \<le> 365 * (d div 365)"
      by (rule DayFromYear_lower)
    also have "\<dots> \<le> d" by simp
    finally show ?thesis using False by simp
  qed
  then show ?thesis unfolding YearFromDay_def by (rule year_search_correct)
qed



lemma DayWithinYear_bounds:
  "0 \<le> DayWithinYear t \<and> DayWithinYear t < DaysInYear (YearFromTime t)"
  using YearFromDay_bounds [of "Day t"] DayFromYear_Suc [of "YearFromDay (Day t)"]
  by (simp add: DayWithinYear_def YearFromTime_def)

lemma MonthFromTime_range: "0 \<le> MonthFromTime t \<and> MonthFromTime t \<le> 11"
  by (simp add: MonthFromTime_def month_of_year_day_def Let_def)

lemma upto_0_10: "[0..10] = [0, 1, 2, 3, 4, 5, 6, 7, 8, 9, 10 :: int]"
  by code_simp

lemma month_cases:
  fixes m :: int
  assumes "0 \<le> m" "m \<le> 10"
  shows "m \<in> {0, 1, 2, 3, 4, 5, 6, 7, 8, 9, 10}"
proof -
  have "m \<in> set [0..10]" using assms by simp
  then show ?thesis unfolding upto_0_10 by simp
qed

lemma DaysBeforeMonth_next:
  "0 \<le> m \<Longrightarrow> m < 11 \<Longrightarrow>
     28 \<le> DaysBeforeMonth l (m + 1) - DaysBeforeMonth l m
     \<and> DaysBeforeMonth l (m + 1) - DaysBeforeMonth l m \<le> 31"
  using month_cases [of m] by (auto simp: DaysBeforeMonth_def)

lemma DaysInYear_cases: "DaysInYear y = 365 \<or> DaysInYear y = 366"
  by (simp add: DaysInYear_def)

lemma MakeDay_date: "MakeDay y m dt = MakeDay y m 1 + dt - 1"
  by (simp add: MakeDay_def Let_def)

lemma MakeDay_next_month:
  "28 \<le> MakeDay y (m + 1) 1 - MakeDay y m 1 \<and> MakeDay y (m + 1) 1 - MakeDay y m 1 \<le> 31"
proof (cases "m mod 12 = 11")
  case True
  have m: "m = 12 * (m div 12) + 11" using True mult_div_mod_eq [of 12 m] by simp
  have "m + 1 = 12 * (m div 12 + 1) + 0" using m by simp
  then have d: "(m + 1) div 12 = m div 12 + 1" and r: "(m + 1) mod 12 = 0"
    using int_div_pos_eq [of "m + 1" 12 "m div 12 + 1" 0]
          int_mod_pos_eq [of "m + 1" 12 "m div 12 + 1" 0] by simp_all
  let ?y = "y + m div 12"
  have b11: "DaysBeforeMonth (DaysInYear ?y = 366) 11 = DaysInYear ?y - 31"
    using DaysInYear_cases [of ?y] by (auto simp: DaysBeforeMonth_def)
  have b0: "DaysBeforeMonth l 0 = 0" for l by (simp add: DaysBeforeMonth_def)
  have "MakeDay y (m + 1) 1 = DayFromYear (?y + 1)"
    by (simp add: MakeDay_def Let_def d r b0 add.assoc)
  moreover have "MakeDay y m 1 = DayFromYear ?y + DaysInYear ?y - 31"
    by (simp add: MakeDay_def Let_def True b11)
  ultimately show ?thesis
    using DayFromYear_Suc [of ?y] by simp
next
  case False
  have b: "0 \<le> m mod 12" "m mod 12 < 11"
    using False pos_mod_bound [of 12 m] by simp_all
  have "m + 1 = 12 * (m div 12) + (m mod 12 + 1)" by simp
  then have d: "(m + 1) div 12 = m div 12" and r: "(m + 1) mod 12 = m mod 12 + 1"
    using int_div_pos_eq [of "m + 1" 12 "m div 12" "m mod 12 + 1"]
          int_mod_pos_eq [of "m + 1" 12 "m div 12" "m mod 12 + 1"] b by simp_all
  show ?thesis
    using DaysBeforeMonth_next [OF b, of "DaysInYear (y + m div 12) = 366"]
    by (simp add: MakeDay_def Let_def d r)
qed


lemma month_of_year_day_lower:
  "0 \<le> d \<Longrightarrow> DaysBeforeMonth l (month_of_year_day l d) \<le> d"
  by (cases l) (simp_all add: month_of_year_day_def DaysBeforeMonth_def)

lemma month_of_year_day_upper:
  "month_of_year_day l d < 11 \<Longrightarrow> d < DaysBeforeMonth l (month_of_year_day l d + 1)"
  by (cases l) (simp_all add: month_of_year_day_def DaysBeforeMonth_def split: if_splits)

lemma DaysBeforeMonth_0: "DaysBeforeMonth l 0 = 0"
  by (simp add: DaysBeforeMonth_def)






lemma MakeDate_Day: "MakeDate (Day t) (TimeWithinDay t) = t"
  by (simp add: MakeDate_def Day_def TimeWithinDay_def)


lemma MakeDay_in_year:
  "0 \<le> m \<Longrightarrow> m \<le> 11 \<Longrightarrow>
     MakeDay y m dt = DayFromYear y + DaysBeforeMonth (DaysInYear y = 366) m + dt - 1"
  by (simp add: MakeDay_def Let_def)


lemma MakeDay_roundtrip:
  "MakeDay (YearFromTime t) (MonthFromTime t) (DateFromTime t) = Day t"
  using MonthFromTime_range [of t]
  by (simp add: MakeDay_in_year DateFromTime_def InLeapYear_def DayWithinYear_def)

lemma DateFromTime_pos: "1 \<le> DateFromTime t"
  using month_of_year_day_lower [of "DayWithinYear t" "InLeapYear t"]
        DayWithinYear_bounds [of t]
  by (simp add: DateFromTime_def MonthFromTime_def)

lemma MakeDay_12: "MakeDay y 12 1 = DayFromYear (y + 1)"
  by (simp add: MakeDay_def Let_def DaysBeforeMonth_0)

lemma Day_before_next_month:
  "Day t < MakeDay (YearFromTime t) (MonthFromTime t + 1) 1"
proof (cases "MonthFromTime t < 11")
  case True
  have r: "0 \<le> MonthFromTime t + 1" "MonthFromTime t + 1 \<le> 11"
    using True MonthFromTime_range [of t] by simp_all
  have "DayWithinYear t < DaysBeforeMonth (InLeapYear t) (MonthFromTime t + 1)"
    using month_of_year_day_upper [of "InLeapYear t" "DayWithinYear t"] True
    by (simp add: MonthFromTime_def)
  then show ?thesis
    by (simp add: MakeDay_in_year [OF r] InLeapYear_def DayWithinYear_def)
next
  case False
  then have m: "MonthFromTime t = 11" using MonthFromTime_range [of t] by simp
  show ?thesis
    using DayWithinYear_bounds [of t] DayFromYear_Suc [of "YearFromTime t"]
    by (simp add: m MakeDay_12 DayWithinYear_def)
qed

lemma MakeDay_first_le_next: "MakeDay y m 1 < MakeDay y (m + 1) 1"
  using MakeDay_next_month [of y m] by simp


lemma MakeTime_range:
  "0 \<le> MakeTime 0 0 0 0 \<and> MakeTime 0 0 0 0 < msPerDay
   \<and> 0 \<le> MakeTime 23 59 59 999 \<and> MakeTime 23 59 59 999 < msPerDay"
  by (simp add: MakeTime_def msPerDay_def)



lemma TimeWithinDay_add_days: "TimeWithinDay (t + n * msPerDay) = TimeWithinDay t"
  by (simp add: TimeWithinDay_def msPerDay_def)

lemma date_le_month_length:
  "DateFromTime t \<le> MakeDay (YearFromTime t) (MonthFromTime t + 1) 1
                      - MakeDay (YearFromTime t) (MonthFromTime t) 1"
  using Day_before_next_month [of t] MakeDay_roundtrip [of t]
        MakeDay_date [of "YearFromTime t" "MonthFromTime t" "DateFromTime t"]
  by simp


section \<open>Properties of dates in a zone\<close>


lemma TimeClip_valid: "\<bar>t\<bar> \<le> 8640000000000000 \<Longrightarrow> TimeClip t = Some t"
  by (simp add: TimeClip_def)













section \<open>Properties of the date window\<close>





















text \<open>
  The two figures above hold where the offset of the zone is constant. In the example
  zone with daylight saving time, the week window of 2024-03-17 at 16:00 UTC starts on
  March 10, the day on which the clocks go forward and which has 23 hours: the window
  is an hour shorter, 687,599,999 ms, and the end of the window at offset 1 is
  82,799,999 ms after the start of the window at offset 0.
\<close>

lemma transition_day_windows:
  "getDateRange new_york_2024 1710691200000 WeekJump 0
     = \<lparr>range_start = Some 1710046800000, range_end = Some 1710734399999\<rparr>
   \<and> (1710734399999::int) - 1710046800000 = 687599999
   \<and> range_end (getDateRange new_york_2024 1710691200000 WeekJump 1) = Some 1710129599999
   \<and> (1710129599999::int) - 1710046800000 = 82799999"
  by code_simp





section \<open>Properties of printed numbers and dates\<close>

lemma show_nat_digits: "list_all is_digit (show_nat n)"
proof (induction n rule: show_nat.induct)
  case (1 n)
  show ?case
  proof (cases "n < 10")
    case True
    then show ?thesis by (simp add: show_nat.simps [of n] is_digit_def)
  next
    case False
    have "n mod 10 < 10" by simp
    then have "is_digit (48 + n mod 10)" unfolding is_digit_def by linarith
    then show ?thesis using False "1.IH" by (simp add: show_nat.simps [of n])
  qed
qed

lemma show_nat_length: "0 < k \<Longrightarrow> n < 10 ^ k \<Longrightarrow> length (show_nat n) \<le> k"
proof (induction n arbitrary: k rule: show_nat.induct)
  case (1 n)
  show ?case
  proof (cases "n < 10")
    case True
    then show ?thesis using "1.prems" by (simp add: show_nat.simps [of n])
  next
    case False
    obtain j where k: "k = Suc j" using "1.prems"(1) by (cases k) simp_all
    have j: "0 < j" using False "1.prems"(2) k by (cases j) simp_all
    have "n div 10 < 10 ^ j" using "1.prems"(2) k by (simp add: less_mult_imp_div_less mult.commute)
    then have "length (show_nat (n div 10)) \<le> j" using "1.IH" [OF False j] by simp
    then show ?thesis using False k by (simp add: show_nat.simps [of n])
  qed
qed

lemma matches_append:
  "matches t1 s1 \<Longrightarrow> matches t2 s2 \<Longrightarrow> matches (t1 @ t2) (s1 @ s2)"
  by (induction t1 s1 rule: matches.induct) simp_all

lemma matches_digits:
  "length s = k \<Longrightarrow> list_all is_digit s \<Longrightarrow> matches (replicate k Digit) s"
  by (induction s arbitrary: k) auto

lemma padStart_digits:
  "0 < k \<Longrightarrow> n < 10 ^ k \<Longrightarrow> matches (replicate k Digit) (padStart k 48 (show_nat n))"
proof (rule matches_digits)
  assume "0 < k" "n < 10 ^ k"
  then show "length (padStart k 48 (show_nat n)) = k"
    using show_nat_length [of k n] by (simp add: padStart_def)
  show "list_all is_digit (padStart k 48 (show_nat n))"
    using show_nat_digits [of n] by (auto simp: padStart_def list_all_iff is_digit_def)
qed

lemma addLeadingZeros_digits:
  "0 < k \<Longrightarrow> 0 \<le> x \<Longrightarrow> x < 10 ^ k \<Longrightarrow>
     matches (replicate k Digit) (addLeadingZeros x k)"
proof -
  assume k: "0 < k" and x: "0 \<le> x" "x < 10 ^ k"
  have "nat x < 10 ^ k" using x by (simp add: nat_less_iff)
  then show ?thesis
    using padStart_digits [OF k, of "nat x"] x by (simp add: addLeadingZeros_def Let_def)
qed

lemma DateFromTime_le_31: "DateFromTime t \<le> 31"
  using date_le_month_length [of t] MakeDay_next_month [of "YearFromTime t" "MonthFromTime t"]
  by simp

lemma time_fields_range:
  "0 \<le> HourFromTime t \<and> HourFromTime t < 24 \<and> 0 \<le> MinFromTime t \<and> MinFromTime t < 60
   \<and> 0 \<le> SecFromTime t \<and> SecFromTime t < 60 \<and> 0 \<le> msFromTime t \<and> msFromTime t < 1000"
  by (simp add: HourFromTime_def MinFromTime_def SecFromTime_def msFromTime_def)

lemma iso_seconds_template_split:
  "iso_seconds_template =
     replicate 4 Digit @ [Char 45] @ replicate 2 Digit @ [Char 45] @ replicate 2 Digit
     @ [Char 84] @ replicate 2 Digit @ [Char 58] @ replicate 2 Digit @ [Char 58]
     @ replicate 2 Digit @ [Char 90]"
  by (simp add: iso_seconds_template_def numeral_eq_Suc)

lemma format_iso_pattern:
  "format z d iso_pattern =
     format_year z d @ js ''-'' @ addLeadingZeros (getMonth z d + 1) 2 @ js ''-''
     @ addLeadingZeros (getDate z d) 2 @ js ''T'' @ addLeadingZeros (getHours z d) 2
     @ js '':'' @ addLeadingZeros (getMinutes z d) 2 @ js '':''
     @ addLeadingZeros (getSeconds z d) 2 @ js ''Z''"
  by (simp add: format_def iso_pattern_def)

lemma two_digits:
  "0 \<le> x \<Longrightarrow> x < 100 \<Longrightarrow> matches (replicate 2 Digit) (addLeadingZeros x 2)"
  using addLeadingZeros_digits [of 2 x] by simp

lemma format_iso_form:
  assumes "four_digit_year z d"
  shows "matches iso_seconds_template (format z d iso_pattern)"
proof -
  let ?t = "LocalTime z d"
  have y: "matches (replicate 4 Digit) (format_year z d)"
    using assms addLeadingZeros_digits [of 4 "getFullYear z d"]
    by (simp add: format_year_def four_digit_year_def Let_def)
  have mo: "matches (replicate 2 Digit) (addLeadingZeros (getMonth z d + 1) 2)"
    using MonthFromTime_range [of ?t] by (intro two_digits) (simp_all add: getMonth_def)
  have da: "matches (replicate 2 Digit) (addLeadingZeros (getDate z d) 2)"
    using DateFromTime_pos [of ?t] DateFromTime_le_31 [of ?t]
    by (intro two_digits) (simp_all add: getDate_def)
  have h: "matches (replicate 2 Digit) (addLeadingZeros (getHours z d) 2)"
    using time_fields_range [of ?t] by (intro two_digits) (simp_all add: getHours_def)
  have mi: "matches (replicate 2 Digit) (addLeadingZeros (getMinutes z d) 2)"
    using time_fields_range [of ?t] by (intro two_digits) (simp_all add: getMinutes_def)
  have s: "matches (replicate 2 Digit) (addLeadingZeros (getSeconds z d) 2)"
    using time_fields_range [of ?t] by (intro two_digits) (simp_all add: getSeconds_def)
  have c: "matches [Char 45] (js ''-'')" "matches [Char 84] (js ''T'')"
    "matches [Char 58] (js '':'')" "matches [Char 90] (js ''Z'')"
    by (simp_all add: js_def)
  show ?thesis
    unfolding iso_seconds_template_split format_iso_pattern
    by (intro matches_append y mo da h mi s c)
qed

section \<open>Properties of the search request\<close>

lemma language_query:
  "(case lang of None \<Rightarrow> [] | Some l \<Rightarrow> if truthy_str l then js ''language:'' @ l @ js '' '' else [])
     = language_filter lang"
  by (cases lang) (simp_all add: language_filter_def truthy_str_def)

text \<open>
  The request for a range of two valid dates: the query \<open>q\<close> is the optional language
  filter followed by \<open>created:<start>..<end>\<close>, with \<open>sort=stars\<close>, \<open>order=desc\<close>
  and \<open>per_page=25\<close>. For an Invalid Date no request is made.
\<close>

lemma build_request_params:
  "build_request z \<lparr>fp_language = lang, fp_dateRange = \<lparr>range_start = Some s, range_end = Some e\<rparr>,
                    fp_token = tok\<rparr> = Inr request \<Longrightarrow>
     req_params request
       = [(js ''q'', language_filter lang @ js ''created:'' @ format z s iso_pattern
                     @ js ''..'' @ format z e iso_pattern),
          (js ''sort'', js ''stars''), (js ''order'', js ''desc''), (js ''per_page'', js ''25'')]"
  unfolding build_request_def formatDateRange_def Let_def language_query
  by auto

lemma build_request_invalid:
  "range_start r = None \<or> range_end r = None \<Longrightarrow>
     fetchRepositories z fetch \<lparr>fp_language = lang, fp_dateRange = r, fp_token = tok\<rparr>
       = Inl RangeError"
  by (auto simp: fetchRepositories_def build_request_def formatDateRange_def
           split: option.splits)

text \<open>
  Both dates of the fragment have the form \<open>DDDD-DD-DDTDD:DD:DDZ\<close> when their local
  years lie between 1 and 9999.
\<close>

lemma date_fragment_form:
  "four_digit_year z s \<Longrightarrow> four_digit_year z e \<Longrightarrow>
     matches iso_seconds_template (format z s iso_pattern)
     \<and> matches iso_seconds_template (format z e iso_pattern)"
  by (simp add: format_iso_form)

text \<open>
  C3: the specification asks for a fragment \<open>created:<start>..<end>\<close> that gives the
  two bounds of the range in UTC. The code prints the local fields of each bound and
  appends the letter \<open>Z\<close>, which designates UTC, so the fragment is the one asked
  for only in the zone UTC. In a zone one hour ahead of UTC, on 2024-01-15 at 12:00
  UTC, the day window runs from 2024-01-14T23:00:00Z to 2024-01-15T22:59:59Z; the
  request asks for \<open>created:2024-01-15T00:00:00Z..2024-01-15T23:59:59Z\<close>, a range that
  lies an hour later, while \<open>toISOString\<close>, which the feed applies to the same two
  bounds, prints their UTC fields. The rest of the request is as specified: no
  language filter without a language, \<open>sort=stars\<close>, \<open>order=desc\<close>, \<open>per_page=25\<close>.
\<close>

theorem search_request_local_fields_as_utc:
  "getDateRange utc_plus_1 1705320000000 DayJump 0
     = \<lparr>range_start = Some 1705273200000, range_end = Some 1705359599999\<rparr>
   \<and> build_request utc_plus_1 day_params_plus_1
     = Inr \<lparr>req_url = API_URL,
            req_params = [(js ''q'', js ''created:2024-01-15T00:00:00Z..2024-01-15T23:59:59Z''),
                          (js ''sort'', js ''stars''), (js ''order'', js ''desc''),
                          (js ''per_page'', js ''25'')],
            req_headers = [(js ''Accept'', js ''application/vnd.github.v3+json'')]\<rparr>
   \<and> spec_date_fragment 1705273200000 1705359599999
     = js ''created:2024-01-14T23:00:00Z..2024-01-15T22:59:59Z''
   \<and> toISOString 1705273200000 = js ''2024-01-14T23:00:00.000Z''
   \<and> toISOString 1705359599999 = js ''2024-01-15T22:59:59.999Z''"
  by code_simp

text \<open>In the zone UTC the fragment is the one that the specification describes.\<close>

lemma search_request_in_utc:
  "formatDateRange utc \<lparr>range_start = Some s, range_end = Some e\<rparr>
     = Inr (spec_date_fragment s e)"
  by (simp add: formatDateRange_def spec_date_fragment_def)

lemma sample_request:
  "build_request utc sample_params
     = Inr \<lparr>req_url = API_URL,
            req_params =
              [(js ''q'', js ''language:TypeScript created:2024-01-08T00:00:00Z..2024-01-15T23:59:59Z''),
               (js ''sort'', js ''stars''), (js ''order'', js ''desc''),
               (js ''per_page'', js ''25'')],
            req_headers = [(js ''Accept'', js ''application/vnd.github.v3+json'')]\<rparr>"
  by code_simp

text \<open>
  The error of a response that is not ok, for a body that is not JSON or is a JSON
  object: the message of the body when it is a non-empty string, and the generic
  message when the body has no message or an empty one.
\<close>

lemma fetchRepositories_not_ok:
  "build_request z params = Inr request \<Longrightarrow> fetch request = Inr response \<Longrightarrow>
     \<not> ok response \<Longrightarrow> fetchRepositories z fetch params = Inl (response_error response)"
  by (simp add: fetchRepositories_def)

lemma response_error_message:
  "body response = Some (JObj kv) \<Longrightarrow> map_of kv (js ''message'') = Some (JStr m) \<Longrightarrow>
     m \<noteq> [] \<Longrightarrow> response_error response = Error m"
  by (simp add: response_error_def)

lemma response_error_generic:
  "body response = None
   \<or> (body response = Some (JObj kv)
       \<and> (map_of kv (js ''message'') = None \<or> map_of kv (js ''message'') = Some (JStr []))) \<Longrightarrow>
     response_error response = Error (js ''GitHub API error: '' @ show_nat (status response))"
  by (auto simp: response_error_def)

lemma validation_failed_example:
  "fetchRepositories utc upstream_422 sample_params = Inl (Error (js ''Validation Failed''))
   \<and> fetchRepositories utc upstream_500 sample_params
       = Inl (Error (js ''GitHub API error: 500''))"
  by code_simp

text \<open>
  C4: the specification says that, on a response with a status that is not a success,
  the error carries the message of the body when there is one and the generic message
  otherwise. The handler replaces a body that is not JSON by an empty object, but not a
  body that is JSON and no object: for status 500 with the body \<open>null\<close>, reading
  \<open>error.message\<close> throws a TypeError, and the error is neither the generic
  \<open>GitHub API error: 500\<close> nor a message of the upstream. The same happens when the
  message is an object with a property \<open>toString\<close>, which cannot be converted to a
  string.
\<close>

theorem null_body_type_error:
  "\<not> ok \<lparr>status = 500, body = Some JNull\<rparr>
   \<and> fetchRepositories utc upstream_500_null sample_params = Inl TypeError
   \<and> fetchRepositories utc upstream_500_null sample_params
       \<noteq> Inl (Error (js ''GitHub API error: 500''))
   \<and> fetchRepositories utc upstream_500_object sample_params = Inl TypeError"
  by code_simp


section \<open>Properties of the group label\<close>

lemma dash_free_append: "dash_free (a @ b) = (dash_free a \<and> dash_free b)"
  by (simp add: dash_free_def)

lemma dash_free_digits: "list_all is_digit s \<Longrightarrow> dash_free s"
  by (auto simp: dash_free_def list_all_iff is_digit_def is_dash_def)

lemma dash_free_month_wide: "dash_free (month_wide m)"
  by (simp add: month_wide_def dash_free_def is_dash_def js_def)

lemma dash_free_month_abbreviated: "dash_free (month_abbreviated m)"
  by (simp add: month_abbreviated_def dash_free_def is_dash_def js_def)

lemma dash_free_addLeadingZeros: "0 \<le> x \<Longrightarrow> dash_free (addLeadingZeros x k)"
proof -
  assume "0 \<le> x"
  moreover have "list_all is_digit (padStart k 48 (show_nat (nat \<bar>x\<bar>)))"
    using show_nat_digits [of "nat \<bar>x\<bar>"] by (auto simp: padStart_def list_all_iff is_digit_def)
  ultimately show ?thesis
    by (simp add: addLeadingZeros_def Let_def dash_free_digits)
qed

lemma dash_free_format_year: "dash_free (format_year z d)"
  by (simp add: format_year_def Let_def dash_free_addLeadingZeros)

lemma dash_free_date: "dash_free (addLeadingZeros (getDate z d) k)"
  using DateFromTime_pos [of "LocalTime z d"]
  by (intro dash_free_addLeadingZeros) (simp add: getDate_def)

lemma dash_free_literals: "dash_free (js '' '')" "dash_free (js '', '')"
  by (simp_all add: dash_free_def is_dash_def js_def)

lemma dash_free_day_label: "dash_free (format z d day_label_pattern)"
  by (simp add: format_def day_label_pattern_def dash_free_append dash_free_month_wide
                dash_free_date dash_free_format_year dash_free_literals)

lemma dash_free_short: "dash_free (format z d short_pattern)"
  by (simp add: format_def short_pattern_def dash_free_append dash_free_month_abbreviated
                dash_free_date dash_free_literals)

lemma dash_free_short_year: "dash_free (format z d short_year_pattern)"
  by (simp add: format_def short_year_pattern_def dash_free_append dash_free_month_abbreviated
                dash_free_date dash_free_format_year dash_free_literals)

lemma filter_dash_free: "dash_free s \<Longrightarrow> filter is_dash s = []"
  by (simp add: dash_free_def list_all_iff filter_empty_conv)

lemma one_separator:
  "dash_free a \<Longrightarrow> dash_free b \<Longrightarrow> filter is_dash (a @ js '' - '' @ b) = js ''-''"
  by (simp add: filter_dash_free) (simp add: js_def is_dash_def)


text \<open>
  C6: the label of the day cadence contains no dash of any kind (hyphen-minus, en
  dash, em dash); the label of the week and of the month cadence is the short form of
  the start, the separator \<open>" - "\<close> and the short form with year of the end, the two
  dates are free of dashes, and the dash of the separator is the only one in the label.
\<close>

theorem label_separator:
  "dash_free (formatDateRangeLabel z r DayJump)
   \<and> (jump \<noteq> DayJump \<longrightarrow>
        formatDateRangeLabel z r jump
          = format z (range_start r) short_pattern @ js '' - ''
            @ format z (range_end r) short_year_pattern
        \<and> dash_free (format z (range_start r) short_pattern)
        \<and> dash_free (format z (range_end r) short_year_pattern)
        \<and> filter is_dash (formatDateRangeLabel z r jump) = js ''-'')"
proof (intro conjI impI)
  show "dash_free (formatDateRangeLabel z r DayJump)"
    by (simp add: formatDateRangeLabel_def dash_free_day_label)
next
  assume j: "jump \<noteq> DayJump"
  then show e: "formatDateRangeLabel z r jump
          = format z (range_start r) short_pattern @ js '' - ''
            @ format z (range_end r) short_year_pattern"
    by (simp add: formatDateRangeLabel_def)
  show a: "dash_free (format z (range_start r) short_pattern)" by (rule dash_free_short)
  show b: "dash_free (format z (range_end r) short_year_pattern)"
    by (rule dash_free_short_year)
  show "filter is_dash (formatDateRangeLabel z r jump) = js ''-''"
    unfolding e using a b by (rule one_separator)
qed

theorem label_separator_witness:
  "WeekJump \<noteq> DayJump
   \<and> formatDateRangeLabel utc sample_dates WeekJump = js ''Jan 8 - Jan 15, 2024''
   \<and> filter is_dash (js ''Jan 8 - Jan 15, 2024'') = js ''-''
   \<and> formatDateRangeLabel utc sample_dates DayJump = js ''January 8, 2024''
   \<and> dash_free (js ''January 8, 2024'')"
proof -
  have w: "formatDateRangeLabel utc sample_dates WeekJump = js ''Jan 8 - Jan 15, 2024''"
    and d: "formatDateRangeLabel utc sample_dates DayJump = js ''January 8, 2024''"
    by code_simp+
  have n: "WeekJump \<noteq> DayJump" by simp
  note t = label_separator [of utc sample_dates WeekJump]
  have 1: "dash_free (js ''January 8, 2024'')"
    using conjunct1 [OF t] unfolding d .
  have 2: "filter is_dash (js ''Jan 8 - Jan 15, 2024'') = js ''-''"
    using conjunct2 [OF t] n unfolding w by blast
  show ?thesis using n w 2 d 1 by (intro conjI)
qed

section \<open>Properties of the paginated feed\<close>

lemma read_nat_snoc: "read_nat (s @ [c]) = 10 * read_nat s + (c - 48)"
  by (simp add: read_nat_def)

lemma read_nat_show: "read_nat (show_nat n) = n"
proof (induction n rule: show_nat.induct)
  case (1 n)
  show ?case
  proof (cases "n < 10")
    case True
    then show ?thesis by (simp add: show_nat.simps [of n] read_nat_def)
  next
    case False
    then show ?thesis using "1.IH" by (simp add: show_nat.simps [of n] read_nat_snoc)
  qed
qed

lemma read_nat_zeros: "read_nat (replicate j 48 @ s) = read_nat s"
proof -
  have "foldl (\<lambda>a c. 10 * a + (c - 48)) 0 (replicate j 48) = (0::nat)"
    by (induction j) simp_all
  then show ?thesis by (simp add: read_nat_def)
qed

lemma read_nat_pad: "read_nat (padStart k 48 (show_nat n)) = n"
  by (simp add: padStart_def read_nat_zeros read_nat_show)

lemma pad_inj:
  assumes "padStart k 48 (show_nat n) = padStart k 48 (show_nat m)"
  shows "n = m"
proof -
  have "n = read_nat (padStart k 48 (show_nat n))" by (simp only: read_nat_pad)
  also have "\<dots> = read_nat (padStart k 48 (show_nat m))" by (simp only: assms)
  also have "\<dots> = m" by (simp only: read_nat_pad)
  finally show ?thesis .
qed

lemma pad_length: "0 < k \<Longrightarrow> n < 10 ^ k \<Longrightarrow> length (padStart k 48 (show_nat n)) = k"
  using show_nat_length [of k n] by (simp add: padStart_def)

lemma pad_length_ge: "k \<le> length (padStart k 48 s)"
  by (simp add: padStart_def)

lemma pad_int_inj:
  assumes "0 \<le> x" "0 \<le> y"
    and "padStart k 48 (show_nat (nat x)) = padStart k 48 (show_nat (nat y))"
  shows "x = y"
proof -
  have "nat x = nat y" using assms(3) by (rule pad_inj)
  then show ?thesis using assms(1,2) by simp
qed

lemma TimeWithinDay_fields:
  "TimeWithinDay t
     = HourFromTime t * 3600000 + MinFromTime t * 60000 + SecFromTime t * 1000 + msFromTime t"
proof -
  have 1: "t mod 86400000 = 3600000 * (t div 3600000 mod 24) + t mod 3600000"
    using zmod_zmult2_eq [of 24 t 3600000] by simp
  have 2: "t mod 3600000 = 60000 * (t div 60000 mod 60) + t mod 60000"
    using zmod_zmult2_eq [of 60 t 60000] by simp
  have 3: "t mod 60000 = 1000 * (t div 1000 mod 60) + t mod 1000"
    using zmod_zmult2_eq [of 60 t 1000] by simp
  have "TimeWithinDay t = t mod 86400000"
    by (simp only: TimeWithinDay_def msPerDay_def)
  also have "\<dots> = 3600000 * (t div 3600000 mod 24) + t mod 3600000" by (rule 1)
  also have "\<dots> = 3600000 * (t div 3600000 mod 24)
                      + (60000 * (t div 60000 mod 60) + t mod 60000)"
    by (simp only: 2)
  also have "\<dots> = 3600000 * (t div 3600000 mod 24)
                      + (60000 * (t div 60000 mod 60)
                         + (1000 * (t div 1000 mod 60) + t mod 1000))"
    by (simp only: 3)
  also have "\<dots> = HourFromTime t * 3600000 + MinFromTime t * 60000
                      + SecFromTime t * 1000 + msFromTime t"
    by (simp only: HourFromTime_def MinFromTime_def SecFromTime_def msFromTime_def
                   mult.commute add.assoc)
  finally show ?thesis .
qed

text \<open>A time value is determined by its seven fields.\<close>

lemma fields_inj:
  assumes "YearFromTime a = YearFromTime b" "MonthFromTime a = MonthFromTime b"
    "DateFromTime a = DateFromTime b" "HourFromTime a = HourFromTime b"
    "MinFromTime a = MinFromTime b" "SecFromTime a = SecFromTime b"
    "msFromTime a = msFromTime b"
  shows "a = b"
proof -
  have d: "Day a = Day b"
    using MakeDay_roundtrip [of a] MakeDay_roundtrip [of b] assms(1,2,3) by simp
  have t: "TimeWithinDay a = TimeWithinDay b"
    using assms(4,5,6,7) by (simp add: TimeWithinDay_fields)
  have "a = MakeDate (Day a) (TimeWithinDay a)" by (simp only: MakeDate_Day)
  also have "\<dots> = MakeDate (Day b) (TimeWithinDay b)" by (simp only: d t)
  also have "\<dots> = b" by (simp only: MakeDate_Day)
  finally show ?thesis .
qed

lemma sep_split:
  "length a = length b \<Longrightarrow> s @ a @ x = s @ b @ y \<Longrightarrow> a = b \<and> x = y"
  by simp

lemma pad2_length: "0 \<le> x \<Longrightarrow> x < 100 \<Longrightarrow> length (padStart 2 48 (show_nat (nat x))) = 2"
  using pad_length [of 2 "nat x"] by simp

lemma iso_fields_inj:
  assumes "iso_fields a = iso_fields b"
  shows "MonthFromTime a = MonthFromTime b" "DateFromTime a = DateFromTime b"
    "HourFromTime a = HourFromTime b" "MinFromTime a = MinFromTime b"
    "SecFromTime a = SecFromTime b" "msFromTime a = msFromTime b"
proof -
  have ma: "0 \<le> MonthFromTime a + 1" "MonthFromTime a + 1 < 100"
    and mb: "0 \<le> MonthFromTime b + 1" "MonthFromTime b + 1 < 100"
    using MonthFromTime_range [of a] MonthFromTime_range [of b] by simp_all
  have da: "0 \<le> DateFromTime a" "DateFromTime a < 100"
    and db: "0 \<le> DateFromTime b" "DateFromTime b < 100"
    using DateFromTime_pos [of a] DateFromTime_le_31 [of a]
          DateFromTime_pos [of b] DateFromTime_le_31 [of b] by simp_all
  have ta: "0 \<le> HourFromTime a" "HourFromTime a < 100" "0 \<le> MinFromTime a"
      "MinFromTime a < 100" "0 \<le> SecFromTime a" "SecFromTime a < 100" "0 \<le> msFromTime a"
    and tb: "0 \<le> HourFromTime b" "HourFromTime b < 100" "0 \<le> MinFromTime b"
      "MinFromTime b < 100" "0 \<le> SecFromTime b" "SecFromTime b < 100" "0 \<le> msFromTime b"
    using time_fields_range [of a] time_fields_range [of b] by simp_all
  note e0 = assms [unfolded iso_fields_def]
  have l1: "length (padStart 2 48 (show_nat (nat (MonthFromTime a + 1))))
              = length (padStart 2 48 (show_nat (nat (MonthFromTime b + 1))))"
    by (simp only: pad2_length [OF ma] pad2_length [OF mb])
  note s1 = sep_split [OF l1 e0]
  have l2: "length (padStart 2 48 (show_nat (nat (DateFromTime a))))
              = length (padStart 2 48 (show_nat (nat (DateFromTime b))))"
    by (simp only: pad2_length [OF da] pad2_length [OF db])
  note s2 = sep_split [OF l2 conjunct2 [OF s1]]
  have l3: "length (padStart 2 48 (show_nat (nat (HourFromTime a))))
              = length (padStart 2 48 (show_nat (nat (HourFromTime b))))"
    by (simp only: pad2_length [OF ta(1,2)] pad2_length [OF tb(1,2)])
  note s3 = sep_split [OF l3 conjunct2 [OF s2]]
  have l4: "length (padStart 2 48 (show_nat (nat (MinFromTime a))))
              = length (padStart 2 48 (show_nat (nat (MinFromTime b))))"
    by (simp only: pad2_length [OF ta(3,4)] pad2_length [OF tb(3,4)])
  note s4 = sep_split [OF l4 conjunct2 [OF s3]]
  have l5: "length (padStart 2 48 (show_nat (nat (SecFromTime a))))
              = length (padStart 2 48 (show_nat (nat (SecFromTime b))))"
    by (simp only: pad2_length [OF ta(5,6)] pad2_length [OF tb(5,6)])
  note s5 = sep_split [OF l5 conjunct2 [OF s4]]
  have s6: "padStart 3 48 (show_nat (nat (msFromTime a)))
              = padStart 3 48 (show_nat (nat (msFromTime b)))"
    using conjunct2 [OF s5] by simp
  have "MonthFromTime a + 1 = MonthFromTime b + 1"
    using ma(1) mb(1) conjunct1 [OF s1] by (rule pad_int_inj)
  then show "MonthFromTime a = MonthFromTime b" by simp
  show "DateFromTime a = DateFromTime b"
    using da(1) db(1) conjunct1 [OF s2] by (rule pad_int_inj)
  show "HourFromTime a = HourFromTime b"
    using ta(1) tb(1) conjunct1 [OF s3] by (rule pad_int_inj)
  show "MinFromTime a = MinFromTime b"
    using ta(3) tb(3) conjunct1 [OF s4] by (rule pad_int_inj)
  show "SecFromTime a = SecFromTime b"
    using ta(5) tb(5) conjunct1 [OF s5] by (rule pad_int_inj)
  show "msFromTime a = msFromTime b"
    using ta(7) tb(7) s6 by (rule pad_int_inj)
qed

lemma iso_fields_length: "length (iso_fields d) = 20"
proof -
  have m: "0 \<le> MonthFromTime d + 1" "MonthFromTime d + 1 < 100"
    using MonthFromTime_range [of d] by simp_all
  have dd: "0 \<le> DateFromTime d" "DateFromTime d < 100"
    using DateFromTime_pos [of d] DateFromTime_le_31 [of d] by simp_all
  have t: "0 \<le> HourFromTime d" "HourFromTime d < 100" "0 \<le> MinFromTime d"
      "MinFromTime d < 100" "0 \<le> SecFromTime d" "SecFromTime d < 100"
      "nat (msFromTime d) < 10 ^ 3"
    using time_fields_range [of d] by (simp_all add: nat_less_iff)
  have ms: "length (padStart 3 48 (show_nat (nat (msFromTime d)))) = 3"
    using pad_length [OF _ t(7)] by simp
  show ?thesis
    by (simp add: iso_fields_def pad2_length [OF m] pad2_length [OF dd] pad2_length [OF t(1,2)]
                  pad2_length [OF t(3,4)] pad2_length [OF t(5,6)] ms js_def)
qed

lemma iso_sign_length: "length (if (z::int) < 0 then js ''-'' else js ''+'') = 1"
  by (simp add: js_def)

lemma iso_sign_inj:
  "(if (x::int) < 0 then js ''-'' else js ''+'') = (if (y::int) < 0 then js ''-'' else js ''+'')
     \<Longrightarrow> (x < 0) = (y < 0)"
  by (cases "x < 0"; cases "y < 0") (simp_all add: js_def)

lemma iso_year_in:
  assumes "0 \<le> z \<and> z \<le> 9999"
  shows "iso_year z = padStart 4 48 (show_nat (nat z))"
  unfolding iso_year_def using assms by (rule if_P)

lemma iso_year_out:
  assumes "\<not> (0 \<le> z \<and> z \<le> 9999)"
  shows "iso_year z
           = (if z < 0 then js ''-'' else js ''+'') @ padStart 6 48 (show_nat (nat \<bar>z\<bar>))"
  unfolding iso_year_def using assms by (rule if_not_P)

lemma iso_year_length_in: "0 \<le> z \<and> z \<le> 9999 \<Longrightarrow> length (iso_year z) = 4"
proof -
  assume z: "0 \<le> z \<and> z \<le> 9999"
  then have "nat z < 10 ^ 4" by (simp add: nat_less_iff)
  then have "length (padStart 4 48 (show_nat (nat z))) = 4" by (intro pad_length) simp_all
  then show ?thesis by (simp only: iso_year_in [OF z])
qed

lemma iso_year_length_out: "\<not> (0 \<le> z \<and> z \<le> 9999) \<Longrightarrow> 7 \<le> length (iso_year z)"
proof -
  assume z: "\<not> (0 \<le> z \<and> z \<le> 9999)"
  have "length (iso_year z) = 1 + length (padStart 6 48 (show_nat (nat \<bar>z\<bar>)))"
    by (simp only: iso_year_out [OF z] length_append iso_sign_length)
  then show ?thesis using pad_length_ge [of 6 "show_nat (nat \<bar>z\<bar>)"] by linarith
qed

lemma iso_year_inj:
  assumes "iso_year x = iso_year y"
  shows "x = y"
proof (cases "0 \<le> x \<and> x \<le> 9999")
  case True
  have iny: "0 \<le> y \<and> y \<le> 9999"
  proof (rule ccontr)
    assume "\<not> (0 \<le> y \<and> y \<le> 9999)"
    then have "7 \<le> length (iso_year y)" by (rule iso_year_length_out)
    moreover have "length (iso_year y) = 4"
      using iso_year_length_in [OF True] by (simp only: assms)
    ultimately show False by linarith
  qed
  have "padStart 4 48 (show_nat (nat x)) = padStart 4 48 (show_nat (nat y))"
    using assms by (simp only: iso_year_in [OF True] iso_year_in [OF iny])
  then show ?thesis using True iny pad_int_inj [of x y 4] by blast
next
  case False
  have outy: "\<not> (0 \<le> y \<and> y \<le> 9999)"
  proof
    assume "0 \<le> y \<and> y \<le> 9999"
    then have "length (iso_year y) = 4" by (rule iso_year_length_in)
    moreover have "7 \<le> length (iso_year y)"
      using iso_year_length_out [OF False] by (simp only: assms)
    ultimately show False by linarith
  qed
  have e: "(if x < 0 then js ''-'' else js ''+'') @ padStart 6 48 (show_nat (nat \<bar>x\<bar>))
         = (if y < 0 then js ''-'' else js ''+'') @ padStart 6 48 (show_nat (nat \<bar>y\<bar>))"
    using assms by (simp only: iso_year_out [OF False] iso_year_out [OF outy])
  have l: "length (if x < 0 then js ''-'' else js ''+'')
             = length (if y < 0 then js ''-'' else js ''+'')"
    by (simp only: iso_sign_length)
  have s: "(if x < 0 then js ''-'' else js ''+'') = (if y < 0 then js ''-'' else js ''+'')"
    and p: "padStart 6 48 (show_nat (nat \<bar>x\<bar>)) = padStart 6 48 (show_nat (nat \<bar>y\<bar>))"
    using e l append_eq_append_conv by blast+
  have sign: "(x < 0) = (y < 0)" using s by (rule iso_sign_inj)
  have "\<bar>x\<bar> = \<bar>y\<bar>" using pad_int_inj [OF _ _ p] by simp
  then show ?thesis using sign by linarith
qed

lemma toISOString_inj:
  assumes "toISOString a = toISOString b"
  shows "a = b"
proof -
  have l: "length (iso_fields a) = length (iso_fields b)" by (simp only: iso_fields_length)
  have e: "iso_year (YearFromTime a) @ iso_fields a = iso_year (YearFromTime b) @ iso_fields b"
    using assms by (simp only: toISOString_def)
  have y: "iso_year (YearFromTime a) = iso_year (YearFromTime b)"
    and f: "iso_fields a = iso_fields b"
    using e l append_eq_append_conv by blast+
  have "YearFromTime a = YearFromTime b" using y by (rule iso_year_inj)
  then show ?thesis
    using iso_fields_inj [OF f] by (rule fields_inj)
qed

text \<open>Two groups have the same key exactly when their windows are the same.\<close>

lemma group_key_eq_iff:
  "(group_key (window_group s e items) = group_key (window_group s' e' items'))
     = (s = s' \<and> e = e')"
  using toISOString_inj [of s s'] toISOString_inj [of e e']
  by (auto simp: group_key_def window_group_def)

text \<open>
  With an upstream that answers every request with the same object, a page whose
  window has two valid bounds is the group of that window with the items of the object;
  three pages fetched in sequence are the groups of the windows at the offsets 0, 1 and
  2, each computed from the reading of the clock at its fetch.
\<close>

lemma queryFn_fixed:
  assumes "fixed_result fetch kv" and "map_of kv (js ''items'') = Some items"
    and "getDateRange z now (pref_dateJump prefs) k = \<lparr>range_start = Some s, range_end = Some e\<rparr>"
  shows "queryFn z fetch prefs now k = Inr (window_group s e items)"
proof -
  have "fetchRepositories z fetch
          \<lparr>fp_language = lang, fp_dateRange = \<lparr>range_start = Some s, range_end = Some e\<rparr>,
           fp_token = tok\<rparr> = Inr (JObj kv)" for lang tok
    using assms(1)
    by (simp add: fetchRepositories_def build_request_def formatDateRange_def Let_def
                  fixed_result_def ok_def)
  then show ?thesis
    using assms(2) by (simp add: queryFn_def Let_def assms(3) window_group_def)
qed

lemma fetchNextPage_fixed:
  assumes "fixed_result fetch kv" and "map_of kv (js ''items'') = Some items"
    and "getDateRange z now (pref_dateJump prefs) (int (length ps))
           = \<lparr>range_start = Some s, range_end = Some e\<rparr>"
  shows "fetchNextPage z fetch prefs now \<lparr>pages = ps, pageParams = qs\<rparr>
           = Inr \<lparr>pages = ps @ [window_group s e items], pageParams = qs @ [int (length ps)]\<rparr>"
  using queryFn_fixed [OF assms]
  by (auto simp: fetchNextPage_def Let_def initialPageParam_def getNextPageParam_def)

lemma three_pages_fixed:
  assumes f: "fixed_result fetch kv" and i: "map_of kv (js ''items'') = Some items"
    and w0: "getDateRange z n0 (pref_dateJump prefs) 0 = \<lparr>range_start = Some s0, range_end = Some e0\<rparr>"
    and w1: "getDateRange z n1 (pref_dateJump prefs) 1 = \<lparr>range_start = Some s1, range_end = Some e1\<rparr>"
    and w2: "getDateRange z n2 (pref_dateJump prefs) 2 = \<lparr>range_start = Some s2, range_end = Some e2\<rparr>"
  shows "fetchPages z fetch prefs [n0, n1, n2] no_pages
           = Inr \<lparr>pages = [window_group s0 e0 items, window_group s1 e1 items,
                           window_group s2 e2 items],
                  pageParams = [0, 1, 2]\<rparr>"
proof -
  have 0: "fetchNextPage z fetch prefs n0 \<lparr>pages = [], pageParams = []\<rparr>
             = Inr \<lparr>pages = [window_group s0 e0 items], pageParams = [0]\<rparr>"
    using fetchNextPage_fixed [OF f i, of z n0 prefs "[]" s0 e0 "[]"] w0 by simp
  have 1: "fetchNextPage z fetch prefs n1 \<lparr>pages = [window_group s0 e0 items], pageParams = [0]\<rparr>
             = Inr \<lparr>pages = [window_group s0 e0 items, window_group s1 e1 items],
                    pageParams = [0, 1]\<rparr>"
    using fetchNextPage_fixed [OF f i, of z n1 prefs "[window_group s0 e0 items]" s1 e1 "[0]"] w1
    by simp
  have 2: "fetchNextPage z fetch prefs n2
             \<lparr>pages = [window_group s0 e0 items, window_group s1 e1 items], pageParams = [0, 1]\<rparr>
             = Inr \<lparr>pages = [window_group s0 e0 items, window_group s1 e1 items,
                             window_group s2 e2 items],
                    pageParams = [0, 1, 2]\<rparr>"
    using fetchNextPage_fixed [OF f i, of z n2 prefs
            "[window_group s0 e0 items, window_group s1 e1 items]" s2 e2 "[0, 1]"] w2
    by simp
  show ?thesis by (simp add: no_pages_def 0 1 2)
qed

lemma fixed_upstream: "fixed_result upstream_fixed [(js ''total_count'', JNum False (js ''5'')),
                             (js ''incomplete_results'', JBool False),
                             (js ''items'', JArr five_items)]"
  by (simp add: fixed_result_def upstream_fixed_def)

lemma items_upstream: "map_of [(js ''total_count'', JNum False (js ''5'')),
                             (js ''incomplete_results'', JBool False),
                             (js ''items'', JArr five_items)] (js ''items'') = Some (JArr five_items)"
  by (simp add: js_def)

text \<open>
  C7: the specification says that three pages fetched in sequence are three groups in
  list order, from the offsets 0, 1 and 2, with three different keys. A page computes
  its window from the clock at the time of its fetch, and the key of a group is the pair
  of the bounds of its window. With the day cadence in the zone UTC, a first page
  fetched on 2024-01-15 at 23:59:59 and a second one fetched two seconds later, after
  midnight, are both the window of January 15: the list has three groups in order, with
  the page parameters 0, 1 and 2, five items each, and the first two groups have the
  same key, which the feed uses as the key of the rendered group.
\<close>

theorem midnight_pages_share_key:
  "fetchPages utc upstream_fixed day_prefs [1705363199000, 1705363201000, 1705363202000] no_pages
     = Inr \<lparr>pages = [\<lparr>group_start = js ''2024-01-15T00:00:00.000Z'',
                      group_end = js ''2024-01-15T23:59:59.999Z'',
                      repositories = Some (JArr five_items)\<rparr>,
                     \<lparr>group_start = js ''2024-01-15T00:00:00.000Z'',
                      group_end = js ''2024-01-15T23:59:59.999Z'',
                      repositories = Some (JArr five_items)\<rparr>,
                     \<lparr>group_start = js ''2024-01-14T00:00:00.000Z'',
                      group_end = js ''2024-01-14T23:59:59.999Z'',
                      repositories = Some (JArr five_items)\<rparr>],
            pageParams = [0, 1, 2]\<rparr>
   \<and> \<not> distinct (map group_key
          [\<lparr>group_start = js ''2024-01-15T00:00:00.000Z'',
            group_end = js ''2024-01-15T23:59:59.999Z'',
            repositories = Some (JArr five_items)\<rparr>,
           \<lparr>group_start = js ''2024-01-15T00:00:00.000Z'',
            group_end = js ''2024-01-15T23:59:59.999Z'',
            repositories = Some (JArr five_items)\<rparr>,
           \<lparr>group_start = js ''2024-01-14T00:00:00.000Z'',
            group_end = js ''2024-01-14T23:59:59.999Z'',
            repositories = Some (JArr five_items)\<rparr>])
   \<and> length five_items = 5"
  by code_simp


end
